theory Spec2Isabelle
  imports Main
begin

text \<open>
  The authentication core of the application: the login throttle
  (\<open>app/api/auth/login-attempt/route.ts\<close>), the second-factor routes (enrollment, disable,
  login challenge), the trusted-device check of the profile route, the settings route and
  the trusted-devices refresh route. Each route handler is a function of the request, of the
  stored data and of what its collaborators answer; it returns the response and the stored
  data as the handler leaves them.
\<close>


section \<open>JavaScript strings\<close>

text \<open>
  A string is the sequence of the bytes of its UTF-8 encoding, so that equality, emptiness,
  \<open>startsWith\<close>, \<open>includes\<close> and \<open>split\<close> with ASCII arguments are those of the
  JavaScript string. The value of a request header reaches the handler with one character
  per byte, so that \<open>slice\<close>, which the routes apply to the user agent only, counts
  these bytes.

  \<open>toLowerCase\<close> and \<open>trim\<close> are built into the JavaScript engine and work on Unicode:
  \<open>trim\<close> also strips U+00A0 and the other Unicode white space, \<open>toLowerCase\<close> follows
  the Unicode case mapping. The two functions below are these built-ins on ASCII strings
  (\<open>A..Z\<close> to \<open>a..z\<close>; tab, LF, VT, FF, CR and space stripped). They decide the tests
  that the routes make on error messages, which look for ASCII words: the Unicode case
  mapping yields the letters of these words from ASCII letters only. Where a key of the
  throttle is computed from a string of the request, the built-ins are parameters of the
  model (record \<open>js_strings\<close> below).
\<close>

definition lower_char :: "char \<Rightarrow> char" where
  "lower_char c =
     (case map_of (zip ''ABCDEFGHIJKLMNOPQRSTUVWXYZ'' ''abcdefghijklmnopqrstuvwxyz'') c of
        Some d \<Rightarrow> d
      | None \<Rightarrow> c)"

definition toLowerCase :: "string \<Rightarrow> string" where
  "toLowerCase s = map lower_char s"

definition is_space :: "char \<Rightarrow> bool" where
  "is_space c = (c \<in> set [CHR 0x09, CHR 0x0A, CHR 0x0B, CHR 0x0C, CHR 0x0D, CHR '' ''])"

definition trim :: "string \<Rightarrow> string" where
  "trim s = rev (dropWhile is_space (rev (dropWhile is_space s)))"

fun startsWith :: "string \<Rightarrow> string \<Rightarrow> bool" where
  "startsWith s [] = True"
| "startsWith [] (p # ps) = False"
| "startsWith (c # cs) (p # ps) = (c = p \<and> startsWith cs ps)"

fun str_includes :: "string \<Rightarrow> string \<Rightarrow> bool" where
  "str_includes [] sub = (sub = [])"
| "str_includes (c # cs) sub = (startsWith (c # cs) sub \<or> str_includes cs sub)"

text \<open>\<open>s.split(sep)\<close> for a one-character separator: never empty, \<open>''''.split(sep) = ['''']\<close>.\<close>

fun split_on :: "char \<Rightarrow> string \<Rightarrow> string list" where
  "split_on sep [] = [[]]"
| "split_on sep (c # cs) =
     (if c = sep then [] # split_on sep cs
      else (case split_on sep cs of [] \<Rightarrow> [[c]] | p # ps \<Rightarrow> (c # p) # ps))"

text \<open>\<open>a || b\<close> on values that are a string or \<open>null\<close>: the empty string is falsy.\<close>

definition truthy :: "string option \<Rightarrow> bool" where
  "truthy v = (case v of None \<Rightarrow> False | Some s \<Rightarrow> s \<noteq> [])"

definition or_else :: "string option \<Rightarrow> string option \<Rightarrow> string option" where
  "or_else a b = (if truthy a then a else b)"

text \<open>
  \<open>String.prototype.toLowerCase\<close> and \<open>String.prototype.trim\<close> as the engine provides
  them, on any string.
\<close>

record js_strings =
  js_toLowerCase :: "string \<Rightarrow> string"
  js_trim :: "string \<Rightarrow> string"

text \<open>The built-ins as far as ASCII strings go; the sample runs use ASCII strings only.\<close>

definition ascii_strings :: js_strings where
  "ascii_strings = \<lparr>js_toLowerCase = toLowerCase, js_trim = trim\<rparr>"

section \<open>JSON values and HTTP responses\<close>

datatype json =
    JNull
  | JBool bool
  | JNum int
  | JStr string
  | JObj "(string \<times> json) list"

text \<open>
  A cookie written by \<open>res.cookies.set(name, value, opts)\<close>. Every call in the routes uses
  \<open>httpOnly: true, sameSite: 'lax', path: '/'\<close>; the fields that vary are kept.
\<close>

record cookie =
  cookie_name :: string
  cookie_value :: string
  cookie_secure :: bool
  cookie_maxAge :: int

record response =
  status :: nat
  body :: json
  retry_after_header :: "int option"
  set_cookie :: "cookie option"

definition json_response :: "nat \<Rightarrow> json \<Rightarrow> response" where
  "json_response st b = \<lparr>status = st, body = b, retry_after_header = None, set_cookie = None\<rparr>"

definition isoError :: "string \<Rightarrow> response" where
  "isoError msg = json_response 500 (JObj [(''error'', JStr msg)])"

definition isoError_default :: response where
  "isoError_default = isoError ''Internal server error''"

definition opt_json :: "string option \<Rightarrow> json" where
  \<comment> \<open>\<open>v || null\<close> for a string-or-null value\<close>
  "opt_json v = (case v of None \<Rightarrow> JNull | Some s \<Rightarrow> if s = [] then JNull else JStr s)"

section \<open>Login throttle (\<open>app/api/auth/login-attempt/route.ts\<close>)\<close>

text \<open>
  \<open>Date.now()\<close> yields integer milliseconds; the sums and differences of the route stay far
  below \<open>2^53\<close>, so they are exact and modelled on \<open>int\<close>.
\<close>

record Entry =
  count :: int
  windowStart :: int

type_synonym attempts = "string \<rightharpoonup> Entry"

definition EMAIL_WINDOW_MS :: int where "EMAIL_WINDOW_MS = 15 * 60 * 1000"
definition EMAIL_MAX :: int where "EMAIL_MAX = 5"
definition IP_WINDOW_MS :: int where "IP_WINDOW_MS = 60 * 60 * 1000"
definition IP_MAX :: int where "IP_MAX = 200"

text \<open>
  \<open>incrMap\<close> reads the clock once (\<open>n\<close>) and returns the entry together with the updated map.
\<close>

definition incrMap :: "attempts \<Rightarrow> string \<Rightarrow> int \<Rightarrow> int \<Rightarrow> Entry \<times> attempts" where
  "incrMap m key windowMs n =
     (case m key of
        None \<Rightarrow> (\<lparr>count = 1, windowStart = n\<rparr>, m(key \<mapsto> \<lparr>count = 1, windowStart = n\<rparr>))
      | Some existing \<Rightarrow>
          if windowStart existing + windowMs \<le> n
          then (\<lparr>count = 1, windowStart = n\<rparr>, m(key \<mapsto> \<lparr>count = 1, windowStart = n\<rparr>))
          else (existing\<lparr>count := count existing + 1\<rparr>,
                m(key \<mapsto> existing\<lparr>count := count existing + 1\<rparr>)))"

record remaining_info =
  remaining :: int
  retryAfter :: int

text \<open>\<open>Math.ceil(x / 1000)\<close> on an integer \<open>x\<close> is \<open>- ((- x) div 1000)\<close>.\<close>

definition ceil_div_1000 :: "int \<Rightarrow> int" where
  "ceil_div_1000 x = - ((- x) div 1000)"

definition getRemaining :: "attempts \<Rightarrow> string \<Rightarrow> int \<Rightarrow> int \<Rightarrow> int \<Rightarrow> remaining_info" where
  "getRemaining m key mx windowMs n =
     (case m key of
        None \<Rightarrow> \<lparr>remaining = mx, retryAfter = 0\<rparr>
      | Some e \<Rightarrow>
          let elapsed = n - windowStart e in
          if elapsed \<ge> windowMs then \<lparr>remaining = mx, retryAfter = 0\<rparr>
          else \<lparr>remaining = max 0 (mx - count e),
                retryAfter = ceil_div_1000 (windowMs - elapsed)\<rparr>)"

record throttle_state =
  ipAttempts :: attempts
  emailAttempts :: attempts

text \<open>
  What the handler reads of a request: \<open>body.email\<close> when it is a string (\<open>None\<close> for an
  unparsable body or a non-string field) and the two address headers.
\<close>

record throttle_request =
  body_email :: "string option"
  x_forwarded_for :: "string option"
  x_real_ip :: "string option"

text \<open>\<open>typeof body?.email === 'string' ? body.email.toLowerCase().trim() : null\<close>\<close>

definition request_email :: "js_strings \<Rightarrow> throttle_request \<Rightarrow> string option" where
  "request_email js req = map_option (\<lambda>e. js_trim js (js_toLowerCase js e)) (body_email req)"

text \<open>
  \<open>xff = req.headers.get('x-forwarded-for') || req.headers.get('x-real-ip') || ''\<close> and
  \<open>ip = xff.split(',')[0].trim() || 'unknown'\<close>
\<close>

definition request_ip :: "js_strings \<Rightarrow> throttle_request \<Rightarrow> string" where
  "request_ip js req =
     (let xff = (case or_else (or_else (x_forwarded_for req) (x_real_ip req)) (Some '''') of
                   None \<Rightarrow> '''' | Some s \<Rightarrow> s);
          ip = (case split_on CHR '','' xff of [] \<Rightarrow> '''' | p # _ \<Rightarrow> js_trim js p)
      in if ip = [] then ''unknown'' else ip)"

definition too_many :: "string \<Rightarrow> int \<Rightarrow> response" where
  "too_many msg retry =
     \<lparr>status = 429, body = JObj [(''error'', JStr msg), (''retryAfter'', JNum retry)],
      retry_after_header = Some retry, set_cookie = None\<rparr>"

text \<open>
  The handler. \<open>clock k\<close> is the value of the \<open>k\<close>-th call of \<open>Date.now()\<close> made while the
  request is served (each \<open>incrMap\<close> and each \<open>getRemaining\<close> reads the clock once).
  Nothing in the body of the \<open>try\<close> raises (a failing \<open>req.json()\<close> is caught by its own
  \<open>.catch\<close>), so the final \<open>catch\<close> has no branch here.
\<close>

definition ok_response :: "int \<Rightarrow> int \<Rightarrow> response" where
  "ok_response ip_remaining email_remaining =
     json_response 200
       (JObj [(''ok'', JBool True),
              (''remaining'', JObj [(''ip'', JNum ip_remaining), (''email'', JNum email_remaining)])])"

definition login_attempt_POST ::
  "js_strings \<Rightarrow> throttle_state \<Rightarrow> throttle_request \<Rightarrow> (nat \<Rightarrow> int) \<Rightarrow>
     response \<times> throttle_state" where
  "login_attempt_POST js st req clock =
     (let email = request_email js req;
          ip = request_ip js req;
          (ipEntry, ipm) = incrMap (ipAttempts st) ip IP_WINDOW_MS (clock 0);
          st1 = st\<lparr>ipAttempts := ipm\<rparr>
      in if count ipEntry > IP_MAX
         then (too_many ''Too many requests from this IP''
                 (retryAfter (getRemaining ipm ip IP_MAX IP_WINDOW_MS (clock 1))), st1)
         else (case email of
                 Some e \<Rightarrow>
                   if e \<noteq> []
                   then (let (emailEntry, em) =
                               incrMap (emailAttempts st1) e EMAIL_WINDOW_MS (clock 1);
                             st2 = st1\<lparr>emailAttempts := em\<rparr>
                         in if count emailEntry > EMAIL_MAX
                            then (too_many ''Too many login attempts for this account''
                                    (retryAfter
                                       (getRemaining em e EMAIL_MAX EMAIL_WINDOW_MS (clock 2))),
                                  st2)
                            else (ok_response
                                    (remaining (getRemaining ipm ip IP_MAX IP_WINDOW_MS (clock 2)))
                                    (remaining
                                       (getRemaining em e EMAIL_MAX EMAIL_WINDOW_MS (clock 3))),
                                  st2))
                   else (ok_response
                           (remaining (getRemaining ipm ip IP_MAX IP_WINDOW_MS (clock 1)))
                           EMAIL_MAX,
                         st1)
               | None \<Rightarrow>
                   (ok_response
                      (remaining (getRemaining ipm ip IP_MAX IP_WINDOW_MS (clock 1)))
                      EMAIL_MAX,
                    st1)))"

section \<open>Runs of the throttle\<close>

text \<open>The two maps are empty when the module is loaded.\<close>

definition initial_state :: throttle_state where
  "initial_state = \<lparr>ipAttempts = Map.empty, emailAttempts = Map.empty\<rparr>"

text \<open>Requests served one after the other, each with its own clock readings.\<close>

fun serve_all ::
  "js_strings \<Rightarrow> throttle_state \<Rightarrow> (throttle_request \<times> (nat \<Rightarrow> int)) list \<Rightarrow>
     response list \<times> throttle_state" where
  "serve_all js st [] = ([], st)"
| "serve_all js st ((req, clock) # rest) =
     (let (r, st1) = login_attempt_POST js st req clock;
          (rs, st2) = serve_all js st1 rest
      in (r # rs, st2))"

text \<open>The states of the counters that some sequence of requests leads to.\<close>

inductive reachable :: "js_strings \<Rightarrow> throttle_state \<Rightarrow> bool" for js where
  start: "reachable js initial_state"
| serve: "reachable js st \<Longrightarrow> reachable js (snd (login_attempt_POST js st req clock))"

text \<open>
  Between two states any number of requests were served, none of which carries the email
  \<open>e\<close>: requests of other accounts or without an email, from any address, at any time.
\<close>

inductive others_served ::
  "js_strings \<Rightarrow> string \<Rightarrow> throttle_state \<Rightarrow> throttle_state \<Rightarrow> bool" for js e where
  none: "others_served js e st st"
| more: "request_email js req \<noteq> Some e \<Longrightarrow>
         others_served js e (snd (login_attempt_POST js st req clock)) st' \<Longrightarrow>
         others_served js e st st'"

text \<open>A response is the refusal of the origin (IP) limit.\<close>

definition ip_denied :: "response \<Rightarrow> bool" where
  "ip_denied r =
     (case body r of
        JObj ((k, JStr msg) # _) \<Rightarrow> k = ''error'' \<and> msg = ''Too many requests from this IP''
      | _ \<Rightarrow> False)"

text \<open>
  A response is a refusal with status 429 that carries \<open>x\<close> as \<open>retryAfter\<close>, in the body
  and in the \<open>Retry-After\<close> header.
\<close>

definition denied_with :: "response \<Rightarrow> int \<Rightarrow> bool" where
  "denied_with r x =
     (status r = 429 \<and> retry_after_header r = Some x \<and>
      (case body r of
         JObj [(k1, JStr msg), (k2, JNum y)] \<Rightarrow> k1 = ''error'' \<and> k2 = ''retryAfter'' \<and> y = x
       | _ \<Rightarrow> False))"

text \<open>
  What \<open>getRemaining\<close> yields as \<open>retryAfter\<close> at time \<open>n\<close> for an account window opened
  at \<open>w\<close>.
\<close>

definition account_retry :: "int \<Rightarrow> int \<Rightarrow> int" where
  "account_retry w n =
     (if n - w \<ge> EMAIL_WINDOW_MS then 0 else ceil_div_1000 (EMAIL_WINDOW_MS - (n - w)))"

subsection \<open>Sample runs\<close>

text \<open>
  Ann tries to log in once a second: her request \<open>i\<close> is served at second \<open>i\<close>, its
  \<open>k\<close>-th clock reading being \<open>k\<close> milliseconds later. Half a second after each of her
  requests, Bob tries to log in from the same address.
\<close>

definition tick :: "nat \<Rightarrow> nat \<Rightarrow> int" where
  "tick i k = 1000 * int i + int k"

definition tock :: "nat \<Rightarrow> nat \<Rightarrow> int" where
  "tock i k = 1000 * int i + 500 + int k"

definition bob_request :: throttle_request where
  "bob_request =
     \<lparr>body_email = Some ''bob@example.com'', x_forwarded_for = Some ''198.51.100.4'',
      x_real_ip = None\<rparr>"

definition ann_request :: throttle_request where
  "ann_request =
     \<lparr>body_email = Some '' Ann@Example.com'', x_forwarded_for = Some ''198.51.100.4, 10.0.0.1'',
      x_real_ip = None\<rparr>"

text \<open>
  The state in which Ann's request \<open>i\<close> is served, the state it leaves, and its response.
\<close>

fun ann_before :: "nat \<Rightarrow> throttle_state" where
  "ann_before 0 = initial_state"
| "ann_before (Suc i) =
     snd (login_attempt_POST ascii_strings
            (snd (login_attempt_POST ascii_strings (ann_before i) ann_request (tick i)))
            bob_request (tock i))"

definition ann_after :: "nat \<Rightarrow> throttle_state" where
  "ann_after i = snd (login_attempt_POST ascii_strings (ann_before i) ann_request (tick i))"

definition ann_response :: "nat \<Rightarrow> response" where
  "ann_response i = fst (login_attempt_POST ascii_strings (ann_before i) ann_request (tick i))"

text \<open>
  An office behind one address: requests without an email, and requests with Ann's email,
  from the office address and from her home address.
\<close>

definition at_instant :: "int \<Rightarrow> nat \<Rightarrow> int" where
  \<comment> \<open>every reading of the clock during the request gives \<open>t\<close>\<close>
  "at_instant t k = t"

definition office_ip :: string where
  "office_ip = ''203.0.113.9''"

definition anonymous_request :: throttle_request where
  "anonymous_request = \<lparr>body_email = None, x_forwarded_for = Some office_ip, x_real_ip = None\<rparr>"

definition office_request :: throttle_request where
  "office_request =
     \<lparr>body_email = Some ''ann@example.com'', x_forwarded_for = Some office_ip, x_real_ip = None\<rparr>"

definition home_request :: throttle_request where
  "home_request =
     \<lparr>body_email = Some ''ann@example.com'', x_forwarded_for = Some ''198.51.100.4'',
      x_real_ip = None\<rparr>"

definition busy_office_state :: throttle_state where
  \<comment> \<open>after 200 requests from the office address\<close>
  "busy_office_state =
     snd (serve_all ascii_strings initial_state (replicate 200 (anonymous_request, at_instant 0)))"

definition nearly_busy_office_state :: throttle_state where
  \<comment> \<open>after 194 requests from the office address\<close>
  "nearly_busy_office_state =
     snd (serve_all ascii_strings initial_state (replicate 194 (anonymous_request, at_instant 0)))"

definition full_office_state :: throttle_state where
  \<comment> \<open>after 195 requests without an email and five with Ann's email, all from the office
      address at instant 0: the origin counter is at 200, Ann's counter at 5\<close>
  "full_office_state =
     snd (serve_all ascii_strings
            (snd (serve_all ascii_strings initial_state
                    (replicate 195 (anonymous_request, at_instant 0))))
            (replicate 5 (office_request, at_instant 0)))"

definition late_tries_state :: throttle_state where
  \<comment> \<open>one request without an email from the office address at instant 0, and five with
      Ann's email from there at 3599000 ms, one second before the origin window ends\<close>
  "late_tries_state =
     snd (serve_all ascii_strings initial_state
            ((anonymous_request, at_instant 0) # replicate 5 (office_request, at_instant 3599000)))"

definition three_tries_state :: throttle_state where
  \<comment> \<open>after three requests with Ann's email from her home address at 1000 ms\<close>
  "three_tries_state =
     snd (serve_all ascii_strings initial_state (replicate 3 (home_request, at_instant 1000)))"

section \<open>Stored data\<close>

text \<open>
  \<open>profiles.preferences\<close> is a JSONB object. Its \<open>totp\<close> entry, when present, has the shape
  that the enrollment route writes; the other keys are kept as they are.
\<close>

record totp_config =
  totp_enabled :: bool
  totp_secret :: string
  totp_createdAt :: string

record preferences =
  prefs_totp :: "totp_config option"
  prefs_other :: "(string \<times> json) list"

record profile =
  full_name :: "string option"
  username :: "string option"
  avatar_path :: "string option"
  profile_preferences :: "preferences option"

text \<open>A row of \<open>trusted_devices\<close> (migration \<open>001_create_trusted_devices_table.sql\<close>).\<close>

record trusted_device =
  dev_id :: string
  dev_user_id :: string
  dev_token_hash :: string
  dev_user_agent :: string
  dev_created_at :: string
  dev_last_seen :: string

record database =
  profiles :: "string \<rightharpoonup> profile"
  trusted_devices :: "trusted_device list"

definition empty_preferences :: preferences where
  "empty_preferences = \<lparr>prefs_totp = None, prefs_other = []\<rparr>"

definition json_of_totp :: "totp_config \<Rightarrow> json" where
  "json_of_totp t =
     JObj [(''enabled'', JBool (totp_enabled t)), (''secret'', JStr (totp_secret t)),
           (''createdAt'', JStr (totp_createdAt t))]"

definition json_of_preferences :: "preferences \<Rightarrow> json" where
  "json_of_preferences p =
     JObj (prefs_other p @ (case prefs_totp p of None \<Rightarrow> [] | Some t \<Rightarrow> [(''totp'', json_of_totp t)]))"

section \<open>The environment of a request\<close>

text \<open>
  The routes call the Supabase client, \<open>otplib\<close> and Node's \<open>crypto\<close>. None of them is code of
  this repository, so what they answer is a parameter of the model. A database call resolves
  with data (\<open>Succeeds\<close>), resolves with \<open>{ error: { message } }\<close> (\<open>Fails message\<close>) or
  rejects (\<open>Raises\<close>); the routes have a branch for each.
\<close>

datatype outcome = Succeeds | Fails string | Raises

record environment =
  service_role_key :: bool
    \<comment> \<open>\<open>createAdminClient()\<close> throws when no service role key is configured\<close>
  session_user :: "(string \<rightharpoonup> string) \<Rightarrow> string option"
    \<comment> \<open>id of the user that \<open>serverSupabase.auth.getUser()\<close> finds for the request's cookies;
        \<open>None\<close> when there is none or the call raises\<close>
  token_user :: "string \<Rightarrow> string option"
    \<comment> \<open>id of the user of \<open>admin.auth.getUser(token)\<close>; \<open>None\<close> when there is none or it raises\<close>
  authenticator_check :: "string \<Rightarrow> string \<Rightarrow> bool option"
    \<comment> \<open>\<open>authenticator.check(token, secret)\<close> of otplib; \<open>None\<close> when it raises\<close>
  crypto_available :: bool
    \<comment> \<open>whether \<open>await import('crypto')\<close> and the calls on it return\<close>
  sha256_hex :: "string \<Rightarrow> string"
    \<comment> \<open>\<open>crypto.createHash('sha256').update(s).digest('hex')\<close>\<close>
  random_token :: string
    \<comment> \<open>\<open>crypto.randomBytes(32).toString('hex')\<close>\<close>
  now_iso :: "nat \<Rightarrow> string"
    \<comment> \<open>the \<open>k\<close>-th \<open>new Date().toISOString()\<close> of the request\<close>
  new_device_id :: string
    \<comment> \<open>\<open>gen_random_uuid()\<close>, the default of \<open>trusted_devices.id\<close>\<close>
  avatar_url_of :: "string \<Rightarrow> string option"
    \<comment> \<open>the public or signed URL of an avatar path, \<open>None\<close> when none is produced\<close>
  production :: bool
    \<comment> \<open>\<open>process.env.NODE_ENV === 'production'\<close>\<close>
  on_profiles_select :: outcome
  on_profiles_update :: outcome
  on_devices_select :: outcome
  on_devices_insert :: outcome
  on_devices_update :: outcome
  on_devices_delete :: outcome

datatype 'a reply = Data 'a | Error string | Thrown

text \<open>
  \<open>.maybeSingle()\<close> of the Supabase client: no row is \<open>null\<close>, one row is that row, more
  rows are the error below.
\<close>

definition multiple_rows_message :: string where
  "multiple_rows_message = ''JSON object requested, multiple (or no) rows returned''"

definition maybeSingle :: "'a list \<Rightarrow> 'a option reply" where
  "maybeSingle rows =
     (case rows of [] \<Rightarrow> Data None | [r] \<Rightarrow> Data (Some r) | _ \<Rightarrow> Error multiple_rows_message)"

text \<open>\<open>from('profiles').select(...).eq('id', userId).maybeSingle()\<close>; \<open>id\<close> is the primary key.\<close>

definition select_profile :: "environment \<Rightarrow> database \<Rightarrow> string \<Rightarrow> profile option reply" where
  "select_profile env db userId =
     (case on_profiles_select env of
        Succeeds \<Rightarrow> Data (profiles db userId)
      | Fails msg \<Rightarrow> Error msg
      | Raises \<Rightarrow> Thrown)"

text \<open>\<open>from('profiles').update({ preferences: merged }).eq('id', userId)\<close>: no row, no change.\<close>

definition update_preferences ::
  "environment \<Rightarrow> database \<Rightarrow> string \<Rightarrow> preferences \<Rightarrow> database reply" where
  "update_preferences env db userId merged =
     (case on_profiles_update env of
        Succeeds \<Rightarrow>
          Data (case profiles db userId of
                  None \<Rightarrow> db
                | Some p \<Rightarrow>
                    db\<lparr>profiles := (profiles db)(userId \<mapsto> p\<lparr>profile_preferences := Some merged\<rparr>)\<rparr>)
      | Fails msg \<Rightarrow> Error msg
      | Raises \<Rightarrow> Thrown)"

text \<open>The rows that \<open>.eq('user_id', userId).eq('token_hash', hash)\<close> selects.\<close>

definition matching_devices :: "database \<Rightarrow> string \<Rightarrow> string \<Rightarrow> trusted_device list" where
  "matching_devices db userId hash =
     filter (\<lambda>d. dev_user_id d = userId \<and> dev_token_hash d = hash) (trusted_devices db)"

text \<open>The rows that \<open>.eq('token_hash', hash)\<close> selects.\<close>

definition devices_with_hash :: "database \<Rightarrow> string \<Rightarrow> trusted_device list" where
  "devices_with_hash db hash = filter (\<lambda>d. dev_token_hash d = hash) (trusted_devices db)"

text \<open>
  \<open>from('trusted_devices').select('id').eq('user_id', userId).eq('token_hash', hash).maybeSingle()\<close>
\<close>

definition select_device ::
  "environment \<Rightarrow> database \<Rightarrow> string \<Rightarrow> string \<Rightarrow> trusted_device option reply" where
  "select_device env db userId hash =
     (case on_devices_select env of
        Succeeds \<Rightarrow>
          maybeSingle (matching_devices db userId hash)
      | Fails msg \<Rightarrow> Error msg
      | Raises \<Rightarrow> Thrown)"

text \<open>
  \<open>from('trusted_devices').insert([row])\<close>. \<open>user_id\<close> references \<open>profiles(id)\<close>, so a row for
  a user without a profile is refused by the database.
\<close>

definition foreign_key_message :: string where
  "foreign_key_message =
     ''insert or update on table trusted_devices violates foreign key constraint''"

definition insert_device :: "environment \<Rightarrow> database \<Rightarrow> trusted_device \<Rightarrow> database reply" where
  "insert_device env db row =
     (case on_devices_insert env of
        Succeeds \<Rightarrow>
          (case profiles db (dev_user_id row) of
             None \<Rightarrow> Error foreign_key_message
           | Some _ \<Rightarrow> Data (db\<lparr>trusted_devices := trusted_devices db @ [row]\<rparr>))
      | Fails msg \<Rightarrow> Error msg
      | Raises \<Rightarrow> Thrown)"

text \<open>
  \<open>from('trusted_devices').update({ last_seen: now }).eq('token_hash', hash)
  .select('id,user_id').maybeSingle()\<close>. When more than one row matches, the request fails as
  a whole and no row is changed.
\<close>

definition touch_device ::
  "environment \<Rightarrow> database \<Rightarrow> string \<Rightarrow> string \<Rightarrow> (trusted_device option \<times> database) reply" where
  "touch_device env db hash now =
     (case on_devices_update env of
        Succeeds \<Rightarrow>
          (case devices_with_hash db hash of
             [] \<Rightarrow> Data (None, db)
           | [r] \<Rightarrow>
               Data (Some (r\<lparr>dev_last_seen := now\<rparr>),
                     db\<lparr>trusted_devices :=
                          map (\<lambda>d. if dev_token_hash d = hash then d\<lparr>dev_last_seen := now\<rparr> else d)
                            (trusted_devices db)\<rparr>)
           | _ \<Rightarrow> Error multiple_rows_message)
      | Fails msg \<Rightarrow> Error msg
      | Raises \<Rightarrow> Thrown)"

text \<open>\<open>from('trusted_devices').delete().eq('user_id', userId)\<close>\<close>

definition delete_devices :: "environment \<Rightarrow> database \<Rightarrow> string \<Rightarrow> database reply" where
  "delete_devices env db userId =
     (case on_devices_delete env of
        Succeeds \<Rightarrow>
          Data (db\<lparr>trusted_devices := filter (\<lambda>d. dev_user_id d \<noteq> userId) (trusted_devices db)\<rparr>)
      | Fails msg \<Rightarrow> Error msg
      | Raises \<Rightarrow> Thrown)"

text \<open>The two tests the routes make on \<open>String(error.message || '').toLowerCase()\<close>.\<close>

definition relation_missing :: "string \<Rightarrow> bool" where
  "relation_missing message =
     (let msg = toLowerCase message
      in str_includes msg ''relation'' \<and> str_includes msg ''does not exist'')"

definition preferences_column_missing :: "string \<Rightarrow> bool" where
  "preferences_column_missing message =
     (let msg = toLowerCase message
      in str_includes msg ''column'' \<and> str_includes msg ''preferences'' \<and>
         str_includes msg ''does not exist'')"

section \<open>Requests\<close>

record body_fields =
  body_userId :: "string option"
  body_secret :: "string option"
  body_token :: "string option"

text \<open>
  The request body: text that is not JSON, no text at all, or a JSON value, of which the
  routes read the three fields above (a field that is absent is \<open>None\<close>).
\<close>

datatype request_body = InvalidJson | EmptyBody | JsonBody body_fields

record request =
  query_userId :: "string option"
  req_body :: request_body
  req_cookies :: "string \<rightharpoonup> string"
  req_authorization :: "string option"
  req_user_agent :: "string option"

text \<open>\<open>parseJsonOrEmpty\<close> (\<open>utils/parse-request\<close>): \<open>None\<close> when it throws.\<close>

definition no_fields :: body_fields where
  "no_fields = \<lparr>body_userId = None, body_secret = None, body_token = None\<rparr>"

definition parseJsonOrEmpty :: "request \<Rightarrow> body_fields option" where
  "parseJsonOrEmpty req =
     (case req_body req of
        InvalidJson \<Rightarrow> None
      | EmptyBody \<Rightarrow> Some no_fields
      | JsonBody f \<Rightarrow> Some f)"

text \<open>\<open>req.json()\<close>: throws on an empty body as well.\<close>

definition req_json :: "request \<Rightarrow> body_fields option" where
  "req_json req =
     (case req_body req of
        InvalidJson \<Rightarrow> None
      | EmptyBody \<Rightarrow> None
      | JsonBody f \<Rightarrow> Some f)"

definition error_response :: "nat \<Rightarrow> string \<Rightarrow> response" where
  "error_response st msg = json_response st (JObj [(''error'', JStr msg)])"

section \<open>\<open>verifyUserFromRequest\<close> (the same function in each dashboard route)\<close>

datatype verified = Verified string | Refused nat string

definition verifyUserFromRequest :: "environment \<Rightarrow> request \<Rightarrow> string option \<Rightarrow> verified" where
  "verifyUserFromRequest env req expectedUserId =
     (let by_header =
            (case req_authorization req of
               None \<Rightarrow> Refused 401 ''missing authorization''
             | Some authHeader \<Rightarrow>
                 if authHeader = [] \<or> \<not> startsWith authHeader ''Bearer ''
                 then Refused 401 ''missing authorization''
                 else (let token = (case split_on CHR '' '' authHeader of
                                      _ # t # _ \<Rightarrow> t | _ \<Rightarrow> [])
                       in if \<not> service_role_key env then Refused 401 ''invalid token''
                          else (case token_user env token of
                                  None \<Rightarrow> Refused 401 ''invalid token''
                                | Some fetched \<Rightarrow>
                                    if truthy expectedUserId \<and> Some fetched \<noteq> expectedUserId
                                    then Refused 403 ''forbidden''
                                    else Verified fetched)))
      in case session_user env (req_cookies req) of
           Some user \<Rightarrow>
             if \<not> truthy expectedUserId \<or> Some user = expectedUserId then Verified user
             else by_header
         | None \<Rightarrow> by_header)"

definition refusal :: "nat \<Rightarrow> string \<Rightarrow> response" where
  \<comment> \<open>\<open>{ error: verified.reason || 'unauthorized' }, { status: verified.status || 401 }\<close>\<close>
  "refusal st reason =
     error_response (if st = 0 then 401 else st) (if reason = [] then ''unauthorized'' else reason)"

section \<open>The TOTP check (enrollment and login routes)\<close>

text \<open>
  \<open>let ok = false; try { ok = authenticator.check(String(token), String(secret)) }
  catch (e) { ok = false }\<close>
\<close>

definition totp_ok :: "environment \<Rightarrow> string \<Rightarrow> string \<Rightarrow> bool" where
  "totp_ok env token secret =
     (case authenticator_check env token secret of
        Some ok \<Rightarrow> ok
      | None \<Rightarrow> False)"

section \<open>The trusted-device cookie\<close>

definition trust_cookie :: "environment \<Rightarrow> string \<Rightarrow> cookie" where
  "trust_cookie env rawToken =
     \<lparr>cookie_name = ''trusted_device'', cookie_value = rawToken, cookie_secure = production env,
      cookie_maxAge = 60 * 60 * 24 * 365\<rparr>"

definition expired_cookie :: "environment \<Rightarrow> cookie" where
  "expired_cookie env =
     \<lparr>cookie_name = ''trusted_device'', cookie_value = '''', cookie_secure = production env,
      cookie_maxAge = 0\<rparr>"

definition with_cookie :: "response \<Rightarrow> cookie \<Rightarrow> response" where
  "with_cookie res c = res\<lparr>set_cookie := Some c\<rparr>"

definition user_agent_of :: "request \<Rightarrow> string" where
  \<comment> \<open>\<open>(req.headers.get('user-agent') || '').slice(0, 1000)\<close>\<close>
  "user_agent_of req = take 1000 (case req_user_agent req of None \<Rightarrow> [] | Some ua \<Rightarrow> ua)"

definition new_device :: "environment \<Rightarrow> request \<Rightarrow> string \<Rightarrow> string \<Rightarrow> string \<Rightarrow> trusted_device" where
  "new_device env req userId hash nowIso =
     \<lparr>dev_id = new_device_id env, dev_user_id = userId, dev_token_hash = hash,
      dev_user_agent = user_agent_of req, dev_created_at = nowIso, dev_last_seen = nowIso\<rparr>"

section \<open>Profile route, \<open>GET\<close>\<close>

text \<open>
  The block that validates the \<open>trusted_device\<close> cookie. \<open>import('crypto')\<close> and
  \<open>createAdminClient()\<close> are inside the inner \<open>try\<close>, whose \<open>catch\<close> applies the prefix test.
\<close>

definition trusted_device_check :: "environment \<Rightarrow> database \<Rightarrow> request \<Rightarrow> string \<Rightarrow> bool" where
  "trusted_device_check env db req userId =
     (case req_cookies req ''trusted_device'' of
        None \<Rightarrow> False
      | Some raw \<Rightarrow>
          if raw = [] then False
          else if \<not> crypto_available env \<or> \<not> service_role_key env
          then startsWith raw (userId @ '':'')
          else (case select_device env db userId (sha256_hex env raw) of
                  Thrown \<Rightarrow> startsWith raw (userId @ '':'')
                | Error message \<Rightarrow>
                    if relation_missing message then startsWith raw (userId @ '':'') else False
                | Data (Some matched) \<Rightarrow> True
                | Data None \<Rightarrow> startsWith raw (userId @ '':'')))"

text \<open>
  Once \<open>createAdminClient()\<close> has returned for the profile query, every call of the second
  \<open>try\<close> that can fail sits in a \<open>try\<close> of its own, so its \<open>catch\<close> has no branch here.
\<close>

definition profile_GET :: "environment \<Rightarrow> database \<Rightarrow> request \<Rightarrow> response" where
  "profile_GET env db req =
     (case query_userId req of
        None \<Rightarrow> error_response 400 ''missing userId''
      | Some userId \<Rightarrow>
          if userId = [] then error_response 400 ''missing userId''
          else (case verifyUserFromRequest env req (Some userId) of
                  Refused st reason \<Rightarrow> refusal st reason
                | Verified _ \<Rightarrow>
                    if \<not> service_role_key env then isoError_default
                    else (case select_profile env db userId of
                            Thrown \<Rightarrow> isoError_default
                          | Error message \<Rightarrow> isoError message
                          | Data profileData \<Rightarrow>
                              (let path = (case profileData of
                                             None \<Rightarrow> None
                                           | Some p \<Rightarrow> or_else (avatar_path p) None);
                                   avatarUrl = (case path of
                                                  None \<Rightarrow> None
                                                | Some a \<Rightarrow> or_else (avatar_url_of env a) None);
                                   totp = (case profileData of
                                             None \<Rightarrow> None
                                           | Some p \<Rightarrow>
                                               (case profile_preferences p of
                                                  None \<Rightarrow> None
                                                | Some prefs \<Rightarrow> prefs_totp prefs));
                                   trustedDevice = trusted_device_check env db req userId
                               in json_response 200
                                    (JObj [(''profile'', JObj
                                       [(''full_name'', opt_json (case profileData of
                                            None \<Rightarrow> None | Some p \<Rightarrow> full_name p)),
                                        (''username'', opt_json (case profileData of
                                            None \<Rightarrow> None | Some p \<Rightarrow> username p)),
                                        (''avatar'', opt_json avatarUrl),
                                        (''avatar_path'', opt_json path),
                                        (''totp'', (case totp of
                                            None \<Rightarrow> JNull | Some t \<Rightarrow> json_of_totp t)),
                                        (''trustedDevice'', JBool trustedDevice)])])))))"

section \<open>Settings route, \<open>GET\<close>\<close>

definition settings_GET :: "environment \<Rightarrow> database \<Rightarrow> request \<Rightarrow> response" where
  "settings_GET env db req =
     (case query_userId req of
        None \<Rightarrow> error_response 400 ''missing userId''
      | Some userId \<Rightarrow>
          if userId = [] then error_response 400 ''missing userId''
          else (case verifyUserFromRequest env req (Some userId) of
                  Refused st reason \<Rightarrow> refusal st reason
                | Verified _ \<Rightarrow>
                    if \<not> service_role_key env then isoError_default
                    else (case select_profile env db userId of
                            Thrown \<Rightarrow> isoError_default
                          | Error message \<Rightarrow>
                              if preferences_column_missing message
                              then json_response 200 (JObj [(''preferences'', JNull)])
                              else isoError message
                          | Data row \<Rightarrow>
                              json_response 200
                                (JObj [(''preferences'',
                                   (case row of
                                      None \<Rightarrow> JNull
                                    | Some p \<Rightarrow>
                                        (case profile_preferences p of
                                           None \<Rightarrow> JNull
                                         | Some prefs \<Rightarrow> json_of_preferences prefs)))]))))"

section \<open>Enrollment route, \<open>POST /2fa/verify\<close>\<close>

definition enrolled_body :: "string \<Rightarrow> json" where
  "enrolled_body now =
     JObj [(''success'', JBool True),
           (''totp'', JObj [(''enabled'', JBool True), (''createdAt'', JStr now)])]"

definition success_warning :: "string \<Rightarrow> response" where
  "success_warning w = json_response 200 (JObj [(''success'', JBool True), (''warning'', JStr w)])"

definition stored_preferences :: "profile option \<Rightarrow> preferences" where
  \<comment> \<open>\<open>existing?.preferences || {}\<close>\<close>
  "stored_preferences existing =
     (case existing of
        None \<Rightarrow> empty_preferences
      | Some p \<Rightarrow> (case profile_preferences p of None \<Rightarrow> empty_preferences | Some prefs \<Rightarrow> prefs))"

text \<open>
  The last block of the route: create the token, insert its hash, set the cookie. A failing
  \<open>crypto\<close> reaches the outer \<open>catch\<close> (success without a cookie); the insert has a \<open>try\<close> of
  its own, after which the cookie is set whatever the insert did.
\<close>

definition enroll_trust :: "environment \<Rightarrow> database \<Rightarrow> request \<Rightarrow> string \<Rightarrow> string \<Rightarrow> response \<times> database" where
  "enroll_trust env db req userId now =
     (if \<not> crypto_available env then (json_response 200 (enrolled_body now), db)
      else (let rawToken = random_token env;
                hash = sha256_hex env rawToken;
                outRes = with_cookie (json_response 200 (enrolled_body now)) (trust_cookie env rawToken)
            in case insert_device env db (new_device env req userId hash (now_iso env 1)) of
                 Thrown \<Rightarrow> (outRes, db)
               | Error message \<Rightarrow> if relation_missing message then (outRes, db) else (outRes, db)
               | Data db' \<Rightarrow> (outRes, db')))"

definition twofa_verify_POST :: "environment \<Rightarrow> database \<Rightarrow> request \<Rightarrow> response \<times> database" where
  "twofa_verify_POST env db req =
     (case parseJsonOrEmpty req of
        None \<Rightarrow> (error_response 400 ''Invalid JSON body'', db)
      | Some b \<Rightarrow>
     (case body_userId b of
        None \<Rightarrow> (error_response 400 ''missing userId'', db)
      | Some userId \<Rightarrow>
     if userId = [] then (error_response 400 ''missing userId'', db) else
     (case body_secret b of
        None \<Rightarrow> (error_response 400 ''missing secret'', db)
      | Some secret \<Rightarrow>
     if secret = [] then (error_response 400 ''missing secret'', db) else
     (case body_token b of
        None \<Rightarrow> (error_response 400 ''missing token'', db)
      | Some token \<Rightarrow>
     if token = [] then (error_response 400 ''missing token'', db) else
     (case verifyUserFromRequest env req (Some userId) of
        Refused st reason \<Rightarrow> (refusal st reason, db)
      | Verified _ \<Rightarrow>
     if \<not> totp_ok env token secret then (error_response 400 ''invalid token'', db)
     else if \<not> service_role_key env then (isoError_default, db)
     else
     (case select_profile env db userId of
        Thrown \<Rightarrow> (isoError_default, db)
      | Error message \<Rightarrow>
          if preferences_column_missing message
          then (success_warning ''preferences column missing; totp not persisted'', db)
          else (isoError message, db)
      | Data existing \<Rightarrow>
          (let prefs = stored_preferences existing;
               now = now_iso env 0;
               totp = \<lparr>totp_enabled = True, totp_secret = secret, totp_createdAt = now\<rparr>;
               merged = prefs\<lparr>prefs_totp := Some totp\<rparr>
           in case update_preferences env db userId merged of
                Thrown \<Rightarrow> (isoError_default, db)
              | Error message \<Rightarrow>
                  if preferences_column_missing message
                  then (success_warning ''preferences column missing; totp not persisted'', db)
                  else (isoError message, db)
              | Data db1 \<Rightarrow> enroll_trust env db1 req userId now)))))))"

section \<open>Disable route, \<open>POST /2fa/disable\<close>\<close>

text \<open>
  A failing delete is logged (or ignored when the table is missing) and the route goes on
  to expire the cookie. Nothing else in the last \<open>try\<close> raises, so its \<open>catch\<close> has no
  branch here.
\<close>

definition disable_trust :: "environment \<Rightarrow> database \<Rightarrow> string \<Rightarrow> response \<times> database" where
  "disable_trust env db userId =
     (let res = with_cookie (json_response 200 (JObj [(''success'', JBool True)])) (expired_cookie env)
      in case delete_devices env db userId of
           Thrown \<Rightarrow> (res, db)
         | Error message \<Rightarrow> if relation_missing message then (res, db) else (res, db)
         | Data db' \<Rightarrow> (res, db'))"

definition twofa_disable_POST :: "environment \<Rightarrow> database \<Rightarrow> request \<Rightarrow> response \<times> database" where
  "twofa_disable_POST env db req =
     (case req_json req of
        None \<Rightarrow> (isoError_default, db)
      | Some b \<Rightarrow>
     (case body_userId b of
        None \<Rightarrow> (error_response 400 ''missing userId'', db)
      | Some userId \<Rightarrow>
     if userId = [] then (error_response 400 ''missing userId'', db) else
     (case verifyUserFromRequest env req (Some userId) of
        Refused st reason \<Rightarrow> (refusal st reason, db)
      | Verified _ \<Rightarrow>
     if \<not> service_role_key env then (isoError_default, db)
     else
     (case select_profile env db userId of
        Thrown \<Rightarrow> (isoError_default, db)
      | Error message \<Rightarrow>
          if preferences_column_missing message
          then (success_warning ''preferences column missing; nothing to update'', db)
          else (isoError message, db)
      | Data existing \<Rightarrow>
          (let prefs = stored_preferences existing
           in case prefs_totp prefs of
                None \<Rightarrow> disable_trust env db userId
              | Some _ \<Rightarrow>
                  (case update_preferences env db userId (prefs\<lparr>prefs_totp := None\<rparr>) of
                     Thrown \<Rightarrow> (isoError_default, db)
                   | Error message \<Rightarrow>
                       if preferences_column_missing message
                       then (success_warning ''preferences column missing; not persisted'', db)
                       else (isoError message, db)
                   | Data db1 \<Rightarrow> disable_trust env db1 userId))))))"

section \<open>Login challenge route, \<open>POST /2fa/verify-login\<close>\<close>

text \<open>Here the insert sits directly in the \<open>try\<close>: if it raises, no cookie is set.\<close>

definition login_trust :: "environment \<Rightarrow> database \<Rightarrow> request \<Rightarrow> string \<Rightarrow> response \<times> database" where
  "login_trust env db req userId =
     (if \<not> crypto_available env then (json_response 200 (JObj [(''success'', JBool True)]), db)
      else (let rawToken = random_token env;
                hash = sha256_hex env rawToken
            in case insert_device env db (new_device env req userId hash (now_iso env 0)) of
                 Thrown \<Rightarrow> (json_response 200 (JObj [(''success'', JBool True)]), db)
               | Error message \<Rightarrow>
                   if relation_missing message
                   then (with_cookie
                           (success_warning ''trusted_devices table missing; cookie set only'')
                           (trust_cookie env rawToken), db)
                   else (with_cookie (json_response 200 (JObj [(''success'', JBool True)]))
                           (trust_cookie env rawToken), db)
               | Data db' \<Rightarrow>
                   (with_cookie (json_response 200 (JObj [(''success'', JBool True)]))
                      (trust_cookie env rawToken), db')))"

definition verify_login_POST :: "environment \<Rightarrow> database \<Rightarrow> request \<Rightarrow> response \<times> database" where
  "verify_login_POST env db req =
     (case parseJsonOrEmpty req of
        None \<Rightarrow> (error_response 400 ''Invalid JSON body'', db)
      | Some b \<Rightarrow>
     (case body_userId b of
        None \<Rightarrow> (error_response 400 ''missing userId'', db)
      | Some userId \<Rightarrow>
     if userId = [] then (error_response 400 ''missing userId'', db) else
     (case body_token b of
        None \<Rightarrow> (error_response 400 ''missing token'', db)
      | Some token \<Rightarrow>
     if token = [] then (error_response 400 ''missing token'', db) else
     if \<not> service_role_key env then (isoError_default, db)
     else
     (case select_profile env db userId of
        Thrown \<Rightarrow> (isoError_default, db)
      | Error message \<Rightarrow> (isoError message, db)
      | Data row \<Rightarrow>
          (case prefs_totp (stored_preferences row) of
             None \<Rightarrow> (error_response 400 ''totp not configured'', db)
           | Some totp \<Rightarrow>
               if totp_secret totp = [] then (error_response 400 ''totp not configured'', db)
               else if \<not> totp_ok env token (totp_secret totp)
               then (error_response 400 ''invalid token'', db)
               else login_trust env db req userId)))))"

section \<open>Trusted-devices refresh route, \<open>POST\<close>\<close>

definition not_updated :: "string \<Rightarrow> string \<Rightarrow> response" where
  "not_updated key text = json_response 200 (JObj [(''updated'', JBool False), (key, JStr text)])"

definition refresh_POST :: "environment \<Rightarrow> database \<Rightarrow> request \<Rightarrow> response \<times> database" where
  "refresh_POST env db req =
     (case req_cookies req ''trusted_device'' of
        None \<Rightarrow> (not_updated ''reason'' ''no cookie'', db)
      | Some raw \<Rightarrow>
          if raw = [] then (not_updated ''reason'' ''no cookie'', db)
          else if \<not> crypto_available env \<or> \<not> service_role_key env
          then (not_updated ''reason'' ''internal'', db)
          else (case touch_device env db (sha256_hex env raw) (now_iso env 0) of
                  Thrown \<Rightarrow> (not_updated ''reason'' ''internal'', db)
                | Error message \<Rightarrow>
                    if relation_missing message
                    then (not_updated ''warning'' ''trusted_devices table missing'', db)
                    else (isoError message, db)
                | Data (None, db') \<Rightarrow> (not_updated ''reason'' ''no match'', db')
                | Data (Some d, db') \<Rightarrow>
                    (json_response 200
                       (JObj [(''updated'', JBool True), (''id'', JStr (dev_id d)),
                              (''userId'', JStr (dev_user_id d))]), db')))"

section \<open>Notions used in the statements\<close>

text \<open>Whether the code submitted to the enrollment route verifies against the submitted secret.\<close>

definition submitted_code_verifies :: "environment \<Rightarrow> request \<Rightarrow> bool" where
  "submitted_code_verifies env req =
     (case parseJsonOrEmpty req of
        None \<Rightarrow> False
      | Some b \<Rightarrow>
          (case (body_secret b, body_token b) of
             (Some secret, Some token) \<Rightarrow> totp_ok env token secret
           | _ \<Rightarrow> False))"

text \<open>Whether a JSON value contains the string \<open>s\<close> as one of its string values.\<close>

fun json_mentions :: "string \<Rightarrow> json \<Rightarrow> bool" where
  "json_mentions s JNull = False"
| "json_mentions s (JBool b) = False"
| "json_mentions s (JNum n) = False"
| "json_mentions s (JStr t) = (t = s)"
| "json_mentions s (JObj members) = list_ex (\<lambda>(k, v). json_mentions s v) members"

text \<open>The devices that the ledger holds for a user.\<close>

definition devices_of :: "database \<Rightarrow> string \<Rightarrow> trusted_device list" where
  "devices_of db userId = filter (\<lambda>d. dev_user_id d = userId) (trusted_devices db)"

text \<open>The \<open>trustedDevice\<close> field of a profile response.\<close>

definition trustedDevice_of :: "response \<Rightarrow> bool option" where
  "trustedDevice_of res =
     (case body res of
        JObj [(k, JObj members)] \<Rightarrow>
          (case map_of members ''trustedDevice'' of Some (JBool t) \<Rightarrow> Some t | _ \<Rightarrow> None)
      | _ \<Rightarrow> None)"

text \<open>What \<open>randomBytes(32).toString('hex')\<close> produces: 64 lower-case hexadecimal digits.\<close>

definition is_hex_token :: "string \<Rightarrow> bool" where
  "is_hex_token raw = (length raw = 64 \<and> list_all (\<lambda>c. c \<in> set ''0123456789abcdef'') raw)"

section \<open>A sample installation\<close>

text \<open>
  A concrete environment and database on which the routes are run below. The digest stands
  in for SHA-256 (it is injective, which is all the runs need); the one-time-password check
  accepts \<open>123456\<close> for Ann's secret and raises on a code that is not six characters long.
\<close>

definition sample_digest :: "string \<Rightarrow> string" where
  "sample_digest s = ''sha256:'' @ s"

definition ann_secret :: string where
  "ann_secret = ''JBSWY3DPEHPK3PXP''"

definition sample_token :: string where
  "sample_token = ''9f2c4e6a8b0d1f3a5c7e9b1d3f5a7c9e0a2b4c6d8e0f1a3b5c7d9e1f3a5b7c9d''"

definition sample_env :: environment where
  "sample_env =
     \<lparr>service_role_key = True,
      session_user = (\<lambda>cookies. if cookies ''sb-access-token'' = Some ''ann-session''
                                 then Some ''ann'' else None),
      token_user = (\<lambda>token. if token = ''ann-jwt'' then Some ''ann'' else None),
      authenticator_check = (\<lambda>token secret.
         if length token \<noteq> 6 then None else Some (token = ''123456'' \<and> secret = ann_secret)),
      crypto_available = True,
      sha256_hex = sample_digest,
      random_token = sample_token,
      now_iso = (\<lambda>k. ''2025-11-12T10:00:00.000Z''),
      new_device_id = ''device-3'',
      avatar_url_of = (\<lambda>path. Some (''https://cdn.example.com/'' @ path)),
      production = True,
      on_profiles_select = Succeeds,
      on_profiles_update = Succeeds,
      on_devices_select = Succeeds,
      on_devices_insert = Succeeds,
      on_devices_update = Succeeds,
      on_devices_delete = Succeeds\<rparr>"

definition ann_totp :: totp_config where
  "ann_totp = \<lparr>totp_enabled = True, totp_secret = ann_secret,
               totp_createdAt = ''2025-11-01T08:00:00.000Z''\<rparr>"

definition ann_profile :: profile where
  "ann_profile =
     \<lparr>full_name = Some ''Ann Lee'', username = Some ''ann'', avatar_path = None,
      profile_preferences = Some \<lparr>prefs_totp = Some ann_totp,
                                  prefs_other = [(''theme'', JStr ''dark'')]\<rparr>\<rparr>"

definition bob_profile :: profile where
  "bob_profile =
     \<lparr>full_name = Some ''Bob Ray'', username = Some ''bob'', avatar_path = None,
      profile_preferences = Some empty_preferences\<rparr>"

definition sample_device :: "string \<Rightarrow> string \<Rightarrow> string \<Rightarrow> trusted_device" where
  "sample_device ident userId raw =
     \<lparr>dev_id = ident, dev_user_id = userId, dev_token_hash = sample_digest raw,
      dev_user_agent = ''Mozilla/5.0'', dev_created_at = ''2025-11-01T08:00:00.000Z'',
      dev_last_seen = ''2025-11-01T08:00:00.000Z''\<rparr>"

definition sample_db :: database where
  "sample_db =
     \<lparr>profiles = [''ann'' \<mapsto> ann_profile, ''bob'' \<mapsto> bob_profile],
      trusted_devices = [sample_device ''device-1'' ''ann'' ''aaaa'',
                         sample_device ''device-2'' ''ann'' ''bbbb'']\<rparr>"

text \<open>A request from Ann's signed-in browser; the fields are set per run.\<close>

definition ann_browser :: request where
  "ann_browser =
     \<lparr>query_userId = Some ''ann'', req_body = EmptyBody,
      req_cookies = [''sb-access-token'' \<mapsto> ''ann-session''],
      req_authorization = None, req_user_agent = Some ''Mozilla/5.0''\<rparr>"

text \<open>A request that carries no session cookie and no \<open>Authorization\<close> header.\<close>

definition anonymous_browser :: request where
  "anonymous_browser =
     \<lparr>query_userId = None, req_body = EmptyBody, req_cookies = Map.empty,
      req_authorization = None, req_user_agent = Some ''curl/8.0''\<rparr>"

definition fields_of :: "string \<Rightarrow> string \<Rightarrow> string \<Rightarrow> request_body" where
  "fields_of userId secret token =
     JsonBody \<lparr>body_userId = Some userId,
               body_secret = (if secret = [] then None else Some secret),
               body_token = (if token = [] then None else Some token)\<rparr>"

definition enroll_request :: "string \<Rightarrow> request" where
  \<comment> \<open>Ann completes enrollment with the given code\<close>
  "enroll_request code = ann_browser\<lparr>req_body := fields_of ''ann'' ann_secret code\<rparr>"

definition challenge_request :: "string \<Rightarrow> request" where
  \<comment> \<open>a login challenge for Ann's account, sent without any credential\<close>
  "challenge_request code = anonymous_browser\<lparr>req_body := fields_of ''ann'' '''' code\<rparr>"

definition disable_request :: request where
  "disable_request = ann_browser\<lparr>req_body := fields_of ''ann'' '''' ''''\<rparr>"

definition with_trust_cookie :: "request \<Rightarrow> string \<Rightarrow> request" where
  "with_trust_cookie req raw = req\<lparr>req_cookies := (req_cookies req)(''trusted_device'' \<mapsto> raw)\<rparr>"


definition failing_delete_env :: environment where
  "failing_delete_env =
     sample_env\<lparr>on_devices_delete := Fails ''permission denied for table trusted_devices''\<rparr>"


definition failing_insert_env :: environment where
  "failing_insert_env = sample_env\<lparr>on_devices_insert := Fails ''connection terminated''\<rparr>"

definition failing_select_env :: environment where
  "failing_select_env = sample_env\<lparr>on_devices_select := Fails ''connection terminated''\<rparr>"

definition failing_update_env :: environment where
  "failing_update_env = sample_env\<lparr>on_devices_update := Fails ''connection terminated''\<rparr>"

definition after_challenge :: database where
  \<comment> \<open>the sample database after Ann has passed the login challenge\<close>
  "after_challenge = snd (verify_login_POST sample_env sample_db (challenge_request ''123456''))"

definition mutated_token :: string where
  \<comment> \<open>\<open>sample_token\<close> with its first digit changed\<close>
  "mutated_token = ''0f2c4e6a8b0d1f3a5c7e9b1d3f5a7c9e0a2b4c6d8e0f1a3b5c7d9e1f3a5b7c9d''"

section \<open>Properties of the throttle\<close>

subsection \<open>The counter update\<close>

lemma incrMap_existing:
  assumes "m key = Some e"
  shows "(n - windowStart e \<ge> windowMs \<longrightarrow>
            incrMap m key windowMs n =
              (\<lparr>count = 1, windowStart = n\<rparr>, m(key \<mapsto> \<lparr>count = 1, windowStart = n\<rparr>)))
       \<and> (n - windowStart e < windowMs \<longrightarrow>
            incrMap m key windowMs n =
              (\<lparr>count = count e + 1, windowStart = windowStart e\<rparr>,
               m(key \<mapsto> \<lparr>count = count e + 1, windowStart = windowStart e\<rparr>)))"
  using assms by (auto simp: incrMap_def)

lemma incrMap_other_key:
  "key' \<noteq> key \<Longrightarrow> snd (incrMap m key windowMs n) key' = m key'"
  by (simp add: incrMap_def split: option.splits)

lemma incrMap_count_pos:
  assumes "\<forall>k e. m k = Some e \<longrightarrow> 1 \<le> count e" "snd (incrMap m key w n) k = Some e"
  shows "1 \<le> count e"
  using assms by (fastforce simp: incrMap_def split: option.splits if_splits)

subsection \<open>One request\<close>

lemma ip_denied_iff:
  "ip_denied (fst (login_attempt_POST js st q c)) =
     (count (fst (incrMap (ipAttempts st) (request_ip js q) IP_WINDOW_MS (c 0))) > IP_MAX)"
  by (auto simp: login_attempt_POST_def Let_def ip_denied_def too_many_def ok_response_def
        json_response_def split: prod.splits option.splits)

lemma origin_counter_step:
  "ipAttempts (snd (login_attempt_POST js st q c)) =
     snd (incrMap (ipAttempts st) (request_ip js q) IP_WINDOW_MS (c 0))"
  by (auto simp: login_attempt_POST_def Let_def split: prod.splits option.splits)

lemma account_counter_step:
  "emailAttempts (snd (login_attempt_POST js st q c)) =
     (if ip_denied (fst (login_attempt_POST js st q c)) then emailAttempts st
      else case request_email js q of
             None \<Rightarrow> emailAttempts st
           | Some e \<Rightarrow>
               if e = [] then emailAttempts st
               else snd (incrMap (emailAttempts st) e EMAIL_WINDOW_MS (c 1)))"
  unfolding ip_denied_iff
  by (auto simp: login_attempt_POST_def Let_def split: prod.splits option.splits)

lemma other_request_keeps_counter:
  assumes "request_email js q \<noteq> Some e"
  shows "emailAttempts (snd (login_attempt_POST js st q c)) e = emailAttempts st e"
  using assms
  by (auto simp: account_counter_step incrMap_other_key split: option.splits)

lemma others_served_keep_counter:
  "others_served js e st st' \<Longrightarrow> emailAttempts st' e = emailAttempts st e"
  by (induction rule: others_served.induct) (simp_all add: other_request_keeps_counter)

lemma reachable_count_pos:
  "reachable js st \<Longrightarrow> emailAttempts st k = Some e \<Longrightarrow> 1 \<le> count e"
proof (induction arbitrary: k e rule: reachable.induct)
  case start
  then show ?case by (simp add: initial_state_def)
next
  case (serve st req clock)
  have old: "\<forall>k e. emailAttempts st k = Some e \<longrightarrow> 1 \<le> count e"
    using serve.IH by blast
  show ?case
  proof (cases "emailAttempts (snd (login_attempt_POST js st req clock)) = emailAttempts st")
    case True
    with serve.prems old show ?thesis by simp
  next
    case False
    then obtain a where "emailAttempts (snd (login_attempt_POST js st req clock)) =
        snd (incrMap (emailAttempts st) a EMAIL_WINDOW_MS (clock 1))"
      by (auto simp: account_counter_step split: if_splits option.splits)
    with serve.prems show ?thesis
      using incrMap_count_pos [OF old, of a EMAIL_WINDOW_MS "clock 1" k e] by simp
  qed
qed

lemma call_ip_denied:
  assumes "login_attempt_POST js st q c = (r, st')" "ip_denied r"
  shows "emailAttempts st' = emailAttempts st \<and> status r = 429 \<and>
         (\<exists>x. retry_after_header r = Some x \<and>
              body r = JObj [(''error'', JStr ''Too many requests from this IP''),
                             (''retryAfter'', JNum x)])"
proof -
  from assms
  have "count (fst (incrMap (ipAttempts st) (request_ip js q) IP_WINDOW_MS (c 0))) > IP_MAX"
    using ip_denied_iff [of js st q c] by simp
  with assms(1) show ?thesis
    by (auto simp: login_attempt_POST_def Let_def too_many_def split: prod.splits)
qed

lemma call_counted:
  assumes "login_attempt_POST js st q c = (r, st')" "\<not> ip_denied r"
    and "request_email js q = Some e" "e \<noteq> []"
    and "emailAttempts st e = Some ent" "c 1 < windowStart ent + EMAIL_WINDOW_MS"
  shows "emailAttempts st' e = Some (ent\<lparr>count := count ent + 1\<rparr>) \<and>
         (EMAIL_MAX \<le> count ent \<longrightarrow>
            r = too_many ''Too many login attempts for this account''
                  (account_retry (windowStart ent) (c 2)))"
proof -
  from assms(1,2)
  have "\<not> count (fst (incrMap (ipAttempts st) (request_ip js q) IP_WINDOW_MS (c 0))) > IP_MAX"
    using ip_denied_iff [of js st q c] by simp
  with assms show ?thesis
    by (auto simp: login_attempt_POST_def Let_def incrMap_def getRemaining_def account_retry_def
          split: prod.splits if_splits)
qed

lemma account_retry_mono:
  "n \<le> n' \<Longrightarrow> account_retry w n' \<le> account_retry w n"
  unfolding account_retry_def ceil_div_1000_def EMAIL_WINDOW_MS_def
  by (auto intro!: zdiv_mono1)

lemma call_in_window:
  assumes "login_attempt_POST js st q c = (r, st')" "\<not> ip_denied r"
    and "request_email js q = Some e" "e \<noteq> []"
    and "emailAttempts st e = Some en" "c 1 < windowStart en + EMAIL_WINDOW_MS"
  shows "\<exists>en'. emailAttempts st' e = Some en' \<and> windowStart en' = windowStart en \<and>
    count en' = count en + 1"
  using call_counted [OF assms] by simp

lemma call_over_limit:
  assumes "login_attempt_POST js st q c = (r, st')"
    and "request_email js q = Some e" "e \<noteq> []"
    and "emailAttempts st e = Some en" "c 1 < windowStart en + EMAIL_WINDOW_MS"
    and "EMAIL_MAX \<le> count en"
  shows "\<exists>x en'. denied_with r x \<and>
    (\<not> ip_denied r \<longrightarrow> x = account_retry (windowStart en) (c 2)) \<and>
    emailAttempts st' e = Some en' \<and> windowStart en' = windowStart en \<and> EMAIL_MAX \<le> count en'"
proof (cases "ip_denied r")
  case True
  from call_ip_denied [OF assms(1) True] obtain x where
    x: "emailAttempts st' = emailAttempts st" "status r = 429" "retry_after_header r = Some x"
       "body r = JObj [(''error'', JStr ''Too many requests from this IP''),
                       (''retryAfter'', JNum x)]"
    by blast
  have "denied_with r x" using x by (simp add: denied_with_def)
  moreover have "emailAttempts st' e = Some en" using x(1) assms(4) by simp
  ultimately show ?thesis using True assms(6) by blast
next
  case False
  from call_counted [OF assms(1) False assms(2-5)] assms(6)
  have st': "emailAttempts st' e = Some (en\<lparr>count := count en + 1\<rparr>)"
    and r: "r = too_many ''Too many login attempts for this account''
                  (account_retry (windowStart en) (c 2))" by simp_all
  have "denied_with r (account_retry (windowStart en) (c 2))"
    by (simp add: r denied_with_def too_many_def)
  moreover have "EMAIL_MAX \<le> count (en\<lparr>count := count en + 1\<rparr>)" using assms(6) by simp
  moreover have "windowStart (en\<lparr>count := count en + 1\<rparr>) = windowStart en" by simp
  ultimately show ?thesis using st' by blast
qed

text \<open>
  C9, as amended. The counter update \<open>incrMap\<close>, for a key that has a counter: made when
  \<open>now - windowStart \<ge> windowMs\<close> (the boundary included) it stores and returns count 1
  with \<open>windowStart = now\<close>; made strictly before that instant it stores and returns the
  existing count incremented, \<open>windowStart\<close> kept. In a throttle call
  \<^item> the origin counter is always updated in this way, and a call that resets it is not
    refused by the origin limit;
  \<^item> the account counter of the email is updated in this way when the origin limit does not
    refuse the call, and a call that resets it is then admitted (200, \<open>ok: true\<close>);
  \<^item> a call that the origin limit refuses leaves every account counter as it was.
\<close>
theorem fixed_window_in_route:
  assumes "login_attempt_POST js st req clock = (res, st')"
  shows "(m key = Some e \<longrightarrow>
            (n - windowStart e \<ge> windowMs \<longrightarrow>
               incrMap m key windowMs n =
                 (\<lparr>count = 1, windowStart = n\<rparr>, m(key \<mapsto> \<lparr>count = 1, windowStart = n\<rparr>))) \<and>
            (n - windowStart e < windowMs \<longrightarrow>
               incrMap m key windowMs n =
                 (\<lparr>count = count e + 1, windowStart = windowStart e\<rparr>,
                  m(key \<mapsto> \<lparr>count = count e + 1, windowStart = windowStart e\<rparr>)))) \<and>
         (ipAttempts st (request_ip js req) = Some oe \<longrightarrow>
            (clock 0 - windowStart oe \<ge> IP_WINDOW_MS \<longrightarrow>
               ipAttempts st' (request_ip js req) = Some \<lparr>count = 1, windowStart = clock 0\<rparr> \<and>
               \<not> ip_denied res) \<and>
            (clock 0 - windowStart oe < IP_WINDOW_MS \<longrightarrow>
               ipAttempts st' (request_ip js req) =
                 Some \<lparr>count = count oe + 1, windowStart = windowStart oe\<rparr>)) \<and>
         (request_email js req = Some a \<and> a \<noteq> [] \<and> emailAttempts st a = Some ae \<and>
          \<not> ip_denied res \<longrightarrow>
            (clock 1 - windowStart ae \<ge> EMAIL_WINDOW_MS \<longrightarrow>
               emailAttempts st' a = Some \<lparr>count = 1, windowStart = clock 1\<rparr> \<and>
               status res = 200 \<and>
               (\<exists>x y. body res =
                  JObj [(''ok'', JBool True),
                        (''remaining'', JObj [(''ip'', JNum x), (''email'', JNum y)])])) \<and>
            (clock 1 - windowStart ae < EMAIL_WINDOW_MS \<longrightarrow>
               emailAttempts st' a =
                 Some \<lparr>count = count ae + 1, windowStart = windowStart ae\<rparr>)) \<and>
         (ip_denied res \<longrightarrow> emailAttempts st' = emailAttempts st)"
proof -
  have res: "res = fst (login_attempt_POST js st req clock)"
    and st': "st' = snd (login_attempt_POST js st req clock)"
    using assms by simp_all
  have helper: "m key = Some e \<longrightarrow>
            (n - windowStart e \<ge> windowMs \<longrightarrow>
               incrMap m key windowMs n =
                 (\<lparr>count = 1, windowStart = n\<rparr>, m(key \<mapsto> \<lparr>count = 1, windowStart = n\<rparr>))) \<and>
            (n - windowStart e < windowMs \<longrightarrow>
               incrMap m key windowMs n =
                 (\<lparr>count = count e + 1, windowStart = windowStart e\<rparr>,
                  m(key \<mapsto> \<lparr>count = count e + 1, windowStart = windowStart e\<rparr>)))"
    using incrMap_existing [where m = m and key = key and e = e and n = n and windowMs = windowMs]
    by blast
  have origin: "ipAttempts st (request_ip js req) = Some oe \<longrightarrow>
            (clock 0 - windowStart oe \<ge> IP_WINDOW_MS \<longrightarrow>
               ipAttempts st' (request_ip js req) = Some \<lparr>count = 1, windowStart = clock 0\<rparr> \<and>
               \<not> ip_denied res) \<and>
            (clock 0 - windowStart oe < IP_WINDOW_MS \<longrightarrow>
               ipAttempts st' (request_ip js req) =
                 Some \<lparr>count = count oe + 1, windowStart = windowStart oe\<rparr>)"
    unfolding res st' ip_denied_iff origin_counter_step
    by (auto simp: incrMap_def IP_MAX_def)
  have account: "request_email js req = Some a \<and> a \<noteq> [] \<and> emailAttempts st a = Some ae \<and>
          \<not> ip_denied res \<longrightarrow>
            (clock 1 - windowStart ae \<ge> EMAIL_WINDOW_MS \<longrightarrow>
               emailAttempts st' a = Some \<lparr>count = 1, windowStart = clock 1\<rparr> \<and>
               status res = 200 \<and>
               (\<exists>x y. body res =
                  JObj [(''ok'', JBool True),
                        (''remaining'', JObj [(''ip'', JNum x), (''email'', JNum y)])])) \<and>
            (clock 1 - windowStart ae < EMAIL_WINDOW_MS \<longrightarrow>
               emailAttempts st' a =
                 Some \<lparr>count = count ae + 1, windowStart = windowStart ae\<rparr>)"
  proof (intro impI, elim conjE)
    assume a: "request_email js req = Some a" "a \<noteq> []" "emailAttempts st a = Some ae"
      and o: "\<not> ip_denied res"
    from o have lim: "\<not> count (fst (incrMap (ipAttempts st) (request_ip js req) IP_WINDOW_MS
        (clock 0))) > IP_MAX"
      unfolding res ip_denied_iff .
    have upd: "emailAttempts st' = snd (incrMap (emailAttempts st) a EMAIL_WINDOW_MS (clock 1))"
      using o a(1,2) unfolding res st' by (simp add: account_counter_step)
    have admitted: "clock 1 - windowStart ae \<ge> EMAIL_WINDOW_MS \<Longrightarrow>
        status res = 200 \<and>
        (\<exists>x y. body res =
           JObj [(''ok'', JBool True), (''remaining'', JObj [(''ip'', JNum x), (''email'', JNum y)])])"
      unfolding res using lim a
      by (auto simp: login_attempt_POST_def Let_def incrMap_def ok_response_def
            json_response_def EMAIL_MAX_def split: prod.splits)
    from incrMap_existing [where m = "emailAttempts st" and key = a and e = ae
           and n = "clock 1" and windowMs = EMAIL_WINDOW_MS] a(3) admitted
    show "(clock 1 - windowStart ae \<ge> EMAIL_WINDOW_MS \<longrightarrow>
               emailAttempts st' a = Some \<lparr>count = 1, windowStart = clock 1\<rparr> \<and>
               status res = 200 \<and>
               (\<exists>x y. body res =
                  JObj [(''ok'', JBool True),
                        (''remaining'', JObj [(''ip'', JNum x), (''email'', JNum y)])])) \<and>
            (clock 1 - windowStart ae < EMAIL_WINDOW_MS \<longrightarrow>
               emailAttempts st' a =
                 Some \<lparr>count = count ae + 1, windowStart = windowStart ae\<rparr>)"
      by (auto simp: upd)
  qed
  have refused: "ip_denied res \<longrightarrow> emailAttempts st' = emailAttempts st"
    unfolding res st' by (simp add: account_counter_step)
  from helper origin account refused show ?thesis by blast
qed

subsection \<open>Runs from one address\<close>

lemma anonymous_request_ip: "request_ip ascii_strings anonymous_request = office_ip"
  by code_simp

lemma anonymous_request_email: "request_email ascii_strings anonymous_request = None"
  by (simp add: request_email_def anonymous_request_def)

lemma anonymous_call:
  assumes "ipAttempts st office_ip = Some \<lparr>count = c, windowStart = 0\<rparr>"
  shows "snd (login_attempt_POST ascii_strings st anonymous_request (at_instant 0)) =
           st\<lparr>ipAttempts := (ipAttempts st)(office_ip \<mapsto> \<lparr>count = c + 1, windowStart = 0\<rparr>)\<rparr>"
  using assms
  by (simp add: login_attempt_POST_def anonymous_request_ip anonymous_request_email incrMap_def
        IP_WINDOW_MS_def at_instant_def Let_def)

lemma anonymous_calls:
  assumes "ipAttempts st office_ip = Some \<lparr>count = c, windowStart = 0\<rparr>"
  shows "snd (serve_all ascii_strings st (replicate n (anonymous_request, at_instant 0))) =
           st\<lparr>ipAttempts := (ipAttempts st)(office_ip \<mapsto> \<lparr>count = c + int n, windowStart = 0\<rparr>)\<rparr>"
  using assms
proof (induction n arbitrary: st c)
  case 0
  then have "(ipAttempts st)(office_ip \<mapsto> \<lparr>count = c, windowStart = 0\<rparr>) = ipAttempts st"
    by (simp add: map_upd_triv)
  then show ?case by simp
next
  case (Suc n)
  let ?st1 = "snd (login_attempt_POST ascii_strings st anonymous_request (at_instant 0))"
  have st1: "?st1 = st\<lparr>ipAttempts := (ipAttempts st)(office_ip \<mapsto>
      \<lparr>count = c + 1, windowStart = 0\<rparr>)\<rparr>"
    using Suc.prems by (rule anonymous_call)
  then have "ipAttempts ?st1 office_ip = Some \<lparr>count = c + 1, windowStart = 0\<rparr>" by simp
  from Suc.IH [OF this]
  have "snd (serve_all ascii_strings ?st1 (replicate n (anonymous_request, at_instant 0))) =
      ?st1\<lparr>ipAttempts := (ipAttempts ?st1)(office_ip \<mapsto>
        \<lparr>count = c + 1 + int n, windowStart = 0\<rparr>)\<rparr>" .
  also have "\<dots> = st\<lparr>ipAttempts := (ipAttempts st)(office_ip \<mapsto>
      \<lparr>count = c + int (Suc n), windowStart = 0\<rparr>)\<rparr>"
    unfolding st1 by (simp add: add.assoc)
  finally have "snd (serve_all ascii_strings ?st1 (replicate n (anonymous_request, at_instant 0))) =
      st\<lparr>ipAttempts := (ipAttempts st)(office_ip \<mapsto>
        \<lparr>count = c + int (Suc n), windowStart = 0\<rparr>)\<rparr>" .
  moreover
  have "snd (serve_all ascii_strings st (replicate (Suc n) (anonymous_request, at_instant 0))) =
      snd (serve_all ascii_strings ?st1 (replicate n (anonymous_request, at_instant 0)))"
    by (simp add: split_beta Let_def)
  ultimately show ?case by (simp only:)
qed

lemma anonymous_run:
  "snd (serve_all ascii_strings initial_state (replicate (Suc n) (anonymous_request, at_instant 0))) =
     \<lparr>ipAttempts = [office_ip \<mapsto> \<lparr>count = 1 + int n, windowStart = 0\<rparr>],
      emailAttempts = Map.empty\<rparr>"
proof -
  let ?st1 = "snd (login_attempt_POST ascii_strings initial_state anonymous_request (at_instant 0))"
  have st1: "?st1 = \<lparr>ipAttempts = [office_ip \<mapsto> \<lparr>count = 1, windowStart = 0\<rparr>],
      emailAttempts = Map.empty\<rparr>"
    by (simp add: login_attempt_POST_def anonymous_request_ip anonymous_request_email incrMap_def
        initial_state_def at_instant_def Let_def)
  have "snd (serve_all ascii_strings initial_state
          (replicate (Suc n) (anonymous_request, at_instant 0))) =
      snd (serve_all ascii_strings ?st1 (replicate n (anonymous_request, at_instant 0)))"
    by (simp add: split_beta Let_def)
  also have "\<dots> = ?st1\<lparr>ipAttempts := (ipAttempts ?st1)(office_ip \<mapsto>
      \<lparr>count = 1 + int n, windowStart = 0\<rparr>)\<rparr>"
    by (rule anonymous_calls) (simp add: st1)
  finally show ?thesis by (simp add: st1)
qed

lemma busy_office_state_eq:
  "busy_office_state =
     \<lparr>ipAttempts = [office_ip \<mapsto> \<lparr>count = 200, windowStart = 0\<rparr>],
      emailAttempts = Map.empty\<rparr>"
proof -
  have "replicate 200 (anonymous_request, at_instant 0) =
      replicate (Suc 199) (anonymous_request, at_instant 0)"
    by simp
  then show ?thesis
    unfolding busy_office_state_def using anonymous_run [of 199] by (simp only:) simp
qed

lemma nearly_busy_office_state_eq:
  "nearly_busy_office_state =
     \<lparr>ipAttempts = [office_ip \<mapsto> \<lparr>count = 194, windowStart = 0\<rparr>],
      emailAttempts = Map.empty\<rparr>"
proof -
  have "replicate 194 (anonymous_request, at_instant 0) =
      replicate (Suc 193) (anonymous_request, at_instant 0)"
    by simp
  then show ?thesis
    unfolding nearly_busy_office_state_def using anonymous_run [of 193] by (simp only:) simp
qed

lemma full_office_state_eq:
  "full_office_state =
     snd (serve_all ascii_strings
            \<lparr>ipAttempts = [office_ip \<mapsto> \<lparr>count = 195, windowStart = 0\<rparr>],
             emailAttempts = Map.empty\<rparr>
            (replicate 5 (office_request, at_instant 0)))"
proof -
  have "replicate 195 (anonymous_request, at_instant 0) =
      replicate (Suc 194) (anonymous_request, at_instant 0)"
    by simp
  then show ?thesis
    unfolding full_office_state_def using anonymous_run [of 194] by (simp only:) simp
qed

text \<open>
  Ann's counter stands at three tries in a window opened at 1000 ms. From her home address:
  a call at 901000 ms, exactly one window later, starts a new account window and is
  admitted, while the origin counter, whose window is an hour, goes to four; a call one
  millisecond earlier is her fourth try; a call an hour after 1000 ms starts a new origin
  window. In the full office (origin counter at 200), a call refused by the origin limit
  leaves her counter as it was.
\<close>
theorem fixed_window_in_route_witness:
  "emailAttempts three_tries_state ''ann@example.com'' = Some \<lparr>count = 3, windowStart = 1000\<rparr> \<and>
   ipAttempts three_tries_state ''198.51.100.4'' = Some \<lparr>count = 3, windowStart = 1000\<rparr> \<and>
   emailAttempts (snd (login_attempt_POST ascii_strings three_tries_state home_request
       (at_instant 901000))) ''ann@example.com'' = Some \<lparr>count = 1, windowStart = 901000\<rparr> \<and>
   status (fst (login_attempt_POST ascii_strings three_tries_state home_request
       (at_instant 901000))) = 200 \<and>
   ipAttempts (snd (login_attempt_POST ascii_strings three_tries_state home_request
       (at_instant 901000))) ''198.51.100.4'' = Some \<lparr>count = 4, windowStart = 1000\<rparr> \<and>
   emailAttempts (snd (login_attempt_POST ascii_strings three_tries_state home_request
       (at_instant 900999))) ''ann@example.com'' = Some \<lparr>count = 4, windowStart = 1000\<rparr> \<and>
   ipAttempts (snd (login_attempt_POST ascii_strings three_tries_state home_request
       (at_instant 3601000))) ''198.51.100.4'' = Some \<lparr>count = 1, windowStart = 3601000\<rparr> \<and>
   emailAttempts (snd (login_attempt_POST ascii_strings full_office_state office_request
       (at_instant 900000))) = emailAttempts full_office_state \<and>
   fst (incrMap (emailAttempts three_tries_state) ''ann@example.com'' EMAIL_WINDOW_MS 901000) =
     \<lparr>count = 1, windowStart = 901000\<rparr> \<and>
   fst (incrMap (emailAttempts three_tries_state) ''ann@example.com'' EMAIL_WINDOW_MS 900999) =
     \<lparr>count = 4, windowStart = 1000\<rparr>"
proof -
  let ?ann = "''ann@example.com''" and ?home = "''198.51.100.4''"
  let ?three = "\<lparr>count = 3, windowStart = 1000\<rparr>"
  let ?A = "login_attempt_POST ascii_strings three_tries_state home_request (at_instant 901000)"
  let ?B = "login_attempt_POST ascii_strings three_tries_state home_request (at_instant 900999)"
  let ?C = "login_attempt_POST ascii_strings three_tries_state home_request (at_instant 3601000)"
  let ?D = "login_attempt_POST ascii_strings full_office_state office_request (at_instant 900000)"
  have account: "emailAttempts three_tries_state ?ann = Some ?three"
    and origin: "ipAttempts three_tries_state ?home = Some ?three"
    by code_simp+
  have req: "request_email ascii_strings home_request = Some ?ann"
    "request_ip ascii_strings home_request = ?home" "?ann \<noteq> []"
    by code_simp+
  have passes: "\<not> ip_denied (fst ?A)" "\<not> ip_denied (fst ?B)"
    by code_simp+
  have refused: "ip_denied (fst ?D)"
    unfolding full_office_state_eq by code_simp
  have times: "at_instant 901000 1 - windowStart ?three \<ge> EMAIL_WINDOW_MS"
    "at_instant 900999 1 - windowStart ?three < EMAIL_WINDOW_MS"
    "at_instant 901000 0 - windowStart ?three < IP_WINDOW_MS"
    "at_instant 3601000 0 - windowStart ?three \<ge> IP_WINDOW_MS"
    "901000 - windowStart ?three \<ge> EMAIL_WINDOW_MS"
    "900999 - windowStart ?three < EMAIL_WINDOW_MS"
    by (simp_all add: at_instant_def EMAIL_WINDOW_MS_def IP_WINDOW_MS_def)
  from fixed_window_in_route [where js = ascii_strings and st = three_tries_state
         and req = home_request and clock = "at_instant 901000" and res = "fst ?A"
         and st' = "snd ?A" and a = ?ann and ae = ?three and oe = ?three
         and m = "emailAttempts three_tries_state" and key = ?ann and e = ?three
         and n = 901000 and windowMs = EMAIL_WINDOW_MS]
       account origin req passes(1) times
  have A: "emailAttempts (snd ?A) ?ann = Some \<lparr>count = 1, windowStart = 901000\<rparr>"
    "status (fst ?A) = 200"
    "ipAttempts (snd ?A) ?home = Some \<lparr>count = 4, windowStart = 1000\<rparr>"
    "fst (incrMap (emailAttempts three_tries_state) ?ann EMAIL_WINDOW_MS 901000) =
       \<lparr>count = 1, windowStart = 901000\<rparr>"
    by (simp_all add: at_instant_def)
  from fixed_window_in_route [where js = ascii_strings and st = three_tries_state
         and req = home_request and clock = "at_instant 900999" and res = "fst ?B"
         and st' = "snd ?B" and a = ?ann and ae = ?three
         and m = "emailAttempts three_tries_state" and key = ?ann and e = ?three
         and n = 900999 and windowMs = EMAIL_WINDOW_MS]
       account req passes(2) times
  have B: "emailAttempts (snd ?B) ?ann = Some \<lparr>count = 4, windowStart = 1000\<rparr>"
    "fst (incrMap (emailAttempts three_tries_state) ?ann EMAIL_WINDOW_MS 900999) =
       \<lparr>count = 4, windowStart = 1000\<rparr>"
    by (simp_all add: at_instant_def)
  from fixed_window_in_route [where js = ascii_strings and st = three_tries_state
         and req = home_request and clock = "at_instant 3601000" and res = "fst ?C"
         and st' = "snd ?C" and oe = ?three]
       origin req times
  have C: "ipAttempts (snd ?C) ?home = Some \<lparr>count = 1, windowStart = 3601000\<rparr>"
    by (simp add: at_instant_def)
  from fixed_window_in_route [where js = ascii_strings and st = full_office_state
         and req = office_request and clock = "at_instant 900000" and res = "fst ?D"
         and st' = "snd ?D"]
       refused
  have D: "emailAttempts (snd ?D) = emailAttempts full_office_state"
    by simp
  from account origin A B C D show ?thesis by blast
qed

text \<open>
  C9 as stated, for every call and every key, fails: the origin counter is updated and
  tested first, and a call that it refuses returns before the account counter is looked
  at. In the full office (origin counter at 200, Ann's counter at 5 in a window opened at
  0) a call with her email at 900000 ms, when her window has elapsed, is answered 429 and
  her counter is neither reset nor incremented. And a call that resets the origin counter
  is not thereby admitted: after five tries with her email at 3599000 ms, a sixth at
  3600000 ms, when the origin window opened at 0 has elapsed, starts a new origin window
  and is refused by the account limit.
\<close>
theorem elapsed_account_window_not_reset_counterexample:
  "request_email ascii_strings office_request = Some ''ann@example.com'' \<and>
   request_ip ascii_strings office_request = office_ip \<and>
   emailAttempts full_office_state ''ann@example.com'' = Some \<lparr>count = 5, windowStart = 0\<rparr> \<and>
   at_instant 900000 1 - 0 \<ge> EMAIL_WINDOW_MS \<and>
   status (fst (login_attempt_POST ascii_strings full_office_state office_request
      (at_instant 900000))) = 429 \<and>
   emailAttempts (snd (login_attempt_POST ascii_strings full_office_state office_request
      (at_instant 900000))) ''ann@example.com'' = Some \<lparr>count = 5, windowStart = 0\<rparr> \<and>
   ipAttempts late_tries_state office_ip = Some \<lparr>count = 6, windowStart = 0\<rparr> \<and>
   at_instant 3600000 0 - 0 \<ge> IP_WINDOW_MS \<and>
   ipAttempts (snd (login_attempt_POST ascii_strings late_tries_state office_request
      (at_instant 3600000))) office_ip = Some \<lparr>count = 1, windowStart = 3600000\<rparr> \<and>
   status (fst (login_attempt_POST ascii_strings late_tries_state office_request
      (at_instant 3600000))) = 429"
  unfolding full_office_state_eq by code_simp

subsection \<open>The account limit\<close>

text \<open>
  C3, as amended. Seven calls carry the same account email, which is not empty once
  lower-cased and trimmed; the first of them is made in a reachable state of the counters,
  and between them any number of requests that do not carry this email may be served. If
  none of the first five is refused by the origin (IP) limit, and the calls after the first
  are made inside the account window that is current after the first call, then the sixth
  and the seventh call are both answered 429 with a \<open>retryAfter\<close>. When neither of the
  two refusals comes from the origin limit and the clock has not gone back between them,
  the seventh \<open>retryAfter\<close> is at most the sixth.
\<close>
theorem sixth_and_seventh_attempt_denied:
  assumes reach: "reachable js st0"
    and call1: "login_attempt_POST js st0 q1 c1 = (r1, s1)"
    and rest1: "others_served js e s1 t1"
    and call2: "login_attempt_POST js t1 q2 c2 = (r2, s2)"
    and rest2: "others_served js e s2 t2"
    and call3: "login_attempt_POST js t2 q3 c3 = (r3, s3)"
    and rest3: "others_served js e s3 t3"
    and call4: "login_attempt_POST js t3 q4 c4 = (r4, s4)"
    and rest4: "others_served js e s4 t4"
    and call5: "login_attempt_POST js t4 q5 c5 = (r5, s5)"
    and rest5: "others_served js e s5 t5"
    and call6: "login_attempt_POST js t5 q6 c6 = (r6, s6)"
    and rest6: "others_served js e s6 t6"
    and call7: "login_attempt_POST js t6 q7 c7 = (r7, s7)"
    and email: "\<forall>q \<in> {q1, q2, q3, q4, q5, q6, q7}. request_email js q = Some e" "e \<noteq> []"
    and origin: "\<forall>r \<in> {r1, r2, r3, r4, r5}. \<not> ip_denied r"
    and window: "emailAttempts s1 e = Some ent"
      "\<forall>c \<in> {c2, c3, c4, c5, c6, c7}. c 1 < windowStart ent + EMAIL_WINDOW_MS"
    and clock: "c6 2 \<le> c7 2"
  shows "\<exists>x6 x7. denied_with r6 x6 \<and> denied_with r7 x7 \<and>
           (\<not> ip_denied r6 \<and> \<not> ip_denied r7 \<longrightarrow> x7 \<le> x6)"
proof -
  let ?w = "windowStart ent"
  have q: "request_email js q2 = Some e" "request_email js q3 = Some e"
    "request_email js q4 = Some e" "request_email js q5 = Some e"
    "request_email js q6 = Some e" "request_email js q7 = Some e"
    using email(1) by simp_all
  have o: "\<not> ip_denied r2" "\<not> ip_denied r3" "\<not> ip_denied r4" "\<not> ip_denied r5"
    using origin by simp_all
  have t: "c2 1 < ?w + EMAIL_WINDOW_MS" "c3 1 < ?w + EMAIL_WINDOW_MS" "c4 1 < ?w + EMAIL_WINDOW_MS"
    "c5 1 < ?w + EMAIL_WINDOW_MS" "c6 1 < ?w + EMAIL_WINDOW_MS" "c7 1 < ?w + EMAIL_WINDOW_MS"
    using window(2) by simp_all
  have "reachable js (snd (login_attempt_POST js st0 q1 c1))"
    using reach by (rule reachable.serve)
  then have "reachable js s1" by (simp add: call1)
  then have n1: "1 \<le> count ent"
    using window(1) by (rule reachable_count_pos)
  have b1: "emailAttempts t1 e = Some ent"
    using others_served_keep_counter [OF rest1] window(1) by simp
  obtain e2 where a2: "emailAttempts s2 e = Some e2" "windowStart e2 = ?w" "count e2 = count ent + 1"
    using call_in_window [OF call2 o(1) q(1) email(2) b1 t(1)] by blast
  have b2: "emailAttempts t2 e = Some e2"
    using others_served_keep_counter [OF rest2] a2(1) by simp
  obtain e3 where a3: "emailAttempts s3 e = Some e3" "windowStart e3 = ?w" "count e3 = count e2 + 1"
    using call_in_window [OF call3 o(2) q(2) email(2) b2] t(2) a2(2) by auto
  have b3: "emailAttempts t3 e = Some e3"
    using others_served_keep_counter [OF rest3] a3(1) by simp
  obtain e4 where a4: "emailAttempts s4 e = Some e4" "windowStart e4 = ?w" "count e4 = count e3 + 1"
    using call_in_window [OF call4 o(3) q(3) email(2) b3] t(3) a3(2) by auto
  have b4: "emailAttempts t4 e = Some e4"
    using others_served_keep_counter [OF rest4] a4(1) by simp
  obtain e5 where a5: "emailAttempts s5 e = Some e5" "windowStart e5 = ?w" "count e5 = count e4 + 1"
    using call_in_window [OF call5 o(4) q(4) email(2) b4] t(4) a4(2) by auto
  have b5: "emailAttempts t5 e = Some e5"
    using others_served_keep_counter [OF rest5] a5(1) by simp
  have full: "EMAIL_MAX \<le> count e5"
    using n1 a2(3) a3(3) a4(3) a5(3) by (simp add: EMAIL_MAX_def)
  have w6: "c6 1 < windowStart e5 + EMAIL_WINDOW_MS"
    using t(5) a5(2) by simp
  obtain x6 e6 where d6: "denied_with r6 x6" "\<not> ip_denied r6 \<longrightarrow> x6 = account_retry ?w (c6 2)"
    and a6: "emailAttempts s6 e = Some e6" "windowStart e6 = ?w" "EMAIL_MAX \<le> count e6"
    using call_over_limit [OF call6 q(5) email(2) b5 w6 full] a5(2) by auto
  have b6: "emailAttempts t6 e = Some e6"
    using others_served_keep_counter [OF rest6] a6(1) by simp
  have w7: "c7 1 < windowStart e6 + EMAIL_WINDOW_MS"
    using t(6) a6(2) by simp
  obtain x7 e7 where d7: "denied_with r7 x7" "\<not> ip_denied r7 \<longrightarrow> x7 = account_retry ?w (c7 2)"
    using call_over_limit [OF call7 q(6) email(2) b6 w7 a6(3)] a6(2) by auto
  have "\<not> ip_denied r6 \<and> \<not> ip_denied r7 \<longrightarrow> x7 \<le> x6"
    using d6(2) d7(2) account_retry_mono [OF clock, of ?w] by simp
  with d6(1) d7(1) show ?thesis by blast
qed

lemma ann_call:
  "login_attempt_POST ascii_strings (ann_before i) ann_request (tick i) =
     (ann_response i, ann_after i)"
  by (simp add: ann_response_def ann_after_def)

lemma bob_request_email: "request_email ascii_strings bob_request = Some ''bob@example.com''"
  by code_simp

lemma bob_call: "others_served ascii_strings ''ann@example.com'' (ann_after i) (ann_before (Suc i))"
proof -
  have "request_email ascii_strings bob_request \<noteq> Some ''ann@example.com''"
    by (simp add: bob_request_email)
  moreover have "others_served ascii_strings ''ann@example.com''
      (snd (login_attempt_POST ascii_strings (ann_after i) bob_request (tock i)))
      (ann_before (Suc i))"
    by (simp add: ann_after_def others_served.none)
  ultimately show ?thesis by (rule others_served.more)
qed

text \<open>
  Seven calls with Ann's email, one second apart, starting with empty counters, each
  followed by a call with Bob's email from the same address: all the conditions above hold,
  and her sixth and seventh call are refused by the account limit.
\<close>
theorem sixth_and_seventh_attempt_denied_witness:
  "request_email ascii_strings ann_request = Some ''ann@example.com'' \<and>
   emailAttempts (ann_after 0) ''ann@example.com'' = Some \<lparr>count = 1, windowStart = 1\<rparr> \<and>
   \<not> ip_denied (ann_response 5) \<and> \<not> ip_denied (ann_response 6) \<and>
   (\<exists>x6 x7. denied_with (ann_response 5) x6 \<and> denied_with (ann_response 6) x7 \<and> x7 \<le> x6)"
proof -
  let ?e = "''ann@example.com''"
  let ?ent = "\<lparr>count = 1, windowStart = 1\<rparr>"
  let ?k1 = "Suc 0" let ?k2 = "Suc ?k1" let ?k3 = "Suc ?k2" let ?k4 = "Suc ?k3"
  let ?k5 = "Suc ?k4" let ?k6 = "Suc ?k5"
  have e: "\<forall>q \<in> {ann_request, ann_request, ann_request, ann_request, ann_request, ann_request,
      ann_request}. request_email ascii_strings q = Some ?e" by code_simp
  have ne: "?e \<noteq> []" by simp
  have r0: "reachable ascii_strings (ann_before 0)" by (simp add: reachable.start)
  have w: "emailAttempts (ann_after 0) ?e = Some ?ent"
    by code_simp
  have o: "\<forall>r \<in> {ann_response 0, ann_response ?k1, ann_response ?k2, ann_response ?k3,
      ann_response ?k4}. \<not> ip_denied r" by code_simp
  have t: "\<forall>c \<in> {tick ?k1, tick ?k2, tick ?k3, tick ?k4, tick ?k5, tick ?k6}.
      c 1 < windowStart ?ent + EMAIL_WINDOW_MS"
    by (simp add: tick_def EMAIL_WINDOW_MS_def)
  have c: "tick ?k5 2 \<le> tick ?k6 2" by (simp add: tick_def)
  have main: "\<exists>x6 x7. denied_with (ann_response ?k5) x6 \<and> denied_with (ann_response ?k6) x7 \<and>
      (\<not> ip_denied (ann_response ?k5) \<and> \<not> ip_denied (ann_response ?k6) \<longrightarrow> x7 \<le> x6)"
    by (rule sixth_and_seventh_attempt_denied [OF r0
          ann_call [of 0] bob_call [of 0] ann_call [of ?k1] bob_call [of ?k1]
          ann_call [of ?k2] bob_call [of ?k2] ann_call [of ?k3] bob_call [of ?k3]
          ann_call [of ?k4] bob_call [of ?k4] ann_call [of ?k5] bob_call [of ?k5]
          ann_call [of ?k6] e ne o w t c])
  have n: "(5::nat) = ?k5" "(6::nat) = ?k6" by simp_all
  from e have "request_email ascii_strings ann_request = Some ?e" by simp
  moreover have "\<not> ip_denied (ann_response 5)" "\<not> ip_denied (ann_response 6)" by code_simp+
  ultimately show ?thesis using w main unfolding n by blast
qed

text \<open>
  A refusal by the origin limit carries the remaining time of the origin window. After 194
  calls from one address, seven calls with Ann's email from that address, all at the
  opening instant of both windows: the sixth is refused by the account limit with 900
  seconds, the seventh (the 201st of the address) by the origin limit with 3600 seconds.
\<close>

lemma origin_refusal_has_longer_retry:
  "map retry_after_header (fst (serve_all ascii_strings nearly_busy_office_state
      (replicate 7 (office_request, at_instant 0)))) =
     [None, None, None, None, None, Some 900, Some 3600]"
  unfolding nearly_busy_office_state_eq by code_simp

text \<open>
  C3 as stated, without the condition on the origin limit, fails. The origin counter is
  incremented and tested first, and a call that it refuses returns before the account
  counter is touched. After 200 calls from one address, five calls with Ann's email from
  that address are refused by the origin limit; a sixth call with her email, made from
  another address at the same instant, is admitted.
\<close>
theorem sixth_attempt_admitted_counterexample:
  "request_email ascii_strings office_request = Some ''ann@example.com'' \<and>
   request_email ascii_strings home_request = Some ''ann@example.com'' \<and>
   map status (fst (serve_all ascii_strings busy_office_state
      [(office_request, at_instant 0), (office_request, at_instant 0), (office_request, at_instant 0),
       (office_request, at_instant 0), (office_request, at_instant 0), (home_request, at_instant 0)]))
     = [429, 429, 429, 429, 429, 200]"
  unfolding busy_office_state_eq by code_simp

section \<open>Properties of the second-factor routes\<close>

lemmas route_defs = error_response_def json_response_def isoError_def isoError_default_def
  success_warning_def refusal_def with_cookie_def

lemma totp_ok_iff: "totp_ok env token secret = (authenticator_check env token secret = Some True)"
  by (auto simp: totp_ok_def split: option.splits)

text \<open>
  C8. For every code and secret the verification step yields a truth value: \<open>True\<close> exactly
  when \<open>authenticator.check\<close> returns \<open>true\<close>. When the check raises, the step yields
  \<open>False\<close>, and a request that reaches the step is answered 400 \<open>invalid token\<close> with the
  database unchanged, in the enrollment route and in the login route alike.
\<close>
theorem totp_exception_is_failed_verification:
  "totp_ok env token secret = (authenticator_check env token secret = Some True) \<and>
   (authenticator_check env token secret = None \<longrightarrow>
      \<not> totp_ok env token secret \<and>
      (parseJsonOrEmpty req = Some b \<and> body_userId b = Some userId \<and> userId \<noteq> [] \<and>
       body_secret b = Some secret \<and> secret \<noteq> [] \<and> body_token b = Some token \<and> token \<noteq> [] \<and>
       verifyUserFromRequest env req (Some userId) = Verified user \<longrightarrow>
         twofa_verify_POST env db req = (error_response 400 ''invalid token'', db)) \<and>
      (parseJsonOrEmpty req = Some b \<and> body_userId b = Some userId \<and> userId \<noteq> [] \<and>
       body_token b = Some token \<and> token \<noteq> [] \<and> service_role_key env \<and>
       select_profile env db userId = Data row \<and>
       prefs_totp (stored_preferences row) = Some totp \<and> totp_secret totp = secret \<and>
       secret \<noteq> [] \<longrightarrow>
         verify_login_POST env db req = (error_response 400 ''invalid token'', db)))"
  by (auto simp: totp_ok_def twofa_verify_POST_def verify_login_POST_def split: option.splits)

lemma refused_status:
  "verifyUserFromRequest env req expected = Refused st reason \<Longrightarrow> (st = 401 \<or> st = 403) \<and> reason \<noteq> []"
  by (auto simp: verifyUserFromRequest_def Let_def split: option.splits if_splits list.splits)

lemma refusal_is_error:
  assumes "verifyUserFromRequest env req expected = Refused st reason"
  shows "refusal st reason = error_response st reason" "400 \<le> st"
  using refused_status [OF assms] by (auto simp: refusal_def)

lemma enroll_trust_status:
  "status (fst (enroll_trust env db req userId now)) = 200"
  by (auto simp: enroll_trust_def route_defs Let_def split: reply.splits)

text \<open>
  C5. Whatever the enrollment route does with a request: when the submitted code does not
  verify against the submitted secret, the answer is an error (status 400 or above, body
  \<open>{ error }\<close>), the database is left as it was (no configuration stored, no device
  inserted) and no cookie is set. Hence a changed database or a cookie in the answer means
  that the code verified.
\<close>
theorem enrollment_needs_verified_code:
  assumes "twofa_verify_POST env db req = (res, db')"
  shows "(\<not> submitted_code_verifies env req \<longrightarrow>
            400 \<le> status res \<and> (\<exists>msg. body res = JObj [(''error'', JStr msg)]) \<and>
            db' = db \<and> set_cookie res = None) \<and>
         (db' \<noteq> db \<or> set_cookie res \<noteq> None \<longrightarrow> submitted_code_verifies env req)"
  using assms
  by (auto simp: twofa_verify_POST_def submitted_code_verifies_def refusal_is_error
        error_response_def json_response_def
        split: option.splits if_splits verified.splits)


lemma new_device_fields:
  "dev_user_id (new_device env req userId hash now) = userId"
  "dev_token_hash (new_device env req userId hash now) = hash"
  by (simp_all add: new_device_def)

text \<open>
  The other direction, for a working environment: a verified code stores the configuration,
  inserts the device and sets the cookie.
\<close>
lemma enrollment_persists_on_success:
  assumes "parseJsonOrEmpty req = Some b" "body_userId b = Some userId" "userId \<noteq> []"
    and "body_secret b = Some secret" "secret \<noteq> []" "body_token b = Some token" "token \<noteq> []"
    and "verifyUserFromRequest env req (Some userId) = Verified user"
    and "totp_ok env token secret"
    and "service_role_key env" "crypto_available env"
    and "on_profiles_select env = Succeeds" "on_profiles_update env = Succeeds"
    and "on_devices_insert env = Succeeds"
    and "profiles db userId = Some p"
    and "twofa_verify_POST env db req = (res, db')"
  shows "res = with_cookie (json_response 200 (enrolled_body (now_iso env 0)))
                 (trust_cookie env (random_token env))"
    and "\<exists>p'. profiles db' userId = Some p' \<and>
           prefs_totp (stored_preferences (Some p')) =
             Some \<lparr>totp_enabled = True, totp_secret = secret, totp_createdAt = now_iso env 0\<rparr>"
    and "trusted_devices db' = trusted_devices db @
           [new_device env req userId (sha256_hex env (random_token env)) (now_iso env 1)]"
  using assms
  by (auto simp: twofa_verify_POST_def select_profile_def update_preferences_def enroll_trust_def
        insert_device_def stored_preferences_def new_device_fields Let_def)



lemma touch_unknown:
  assumes "devices_with_hash db hash = []"
  shows "touch_device env db hash now =
           (case on_devices_update env of
              Succeeds \<Rightarrow> Data (None, db) | Fails msg \<Rightarrow> Error msg | Raises \<Rightarrow> Thrown)"
proof -
  from assms show ?thesis by (simp add: touch_device_def split: outcome.splits)
qed

text \<open>
  C10, as amended. A refresh request presents a token whose hash is the \<open>token_hash\<close> of
  no stored device. Then the route returns a response (its result is a value in every
  case, also when \<open>crypto\<close> or the database call raises) and the database is unchanged.
  Provided that the update call reports no error other than a missing table, the response
  is a 200 with \<open>updated: false\<close> and one more field, which is \<open>reason: 'no match'\<close>
  when the call is made and succeeds. An error of another kind reported by the update call
  is answered with status 500 and the message of the error.
\<close>
theorem refresh_unknown_token:
  assumes "req_cookies req ''trusted_device'' = Some raw"
    and "devices_with_hash db (sha256_hex env raw) = []"
  shows "snd (refresh_POST env db req) = db \<and>
         ((\<forall>msg. on_devices_update env = Fails msg \<longrightarrow> relation_missing msg) \<longrightarrow>
            status (fst (refresh_POST env db req)) = 200 \<and>
            set_cookie (fst (refresh_POST env db req)) = None \<and>
            (\<exists>key text. body (fst (refresh_POST env db req)) =
                          JObj [(''updated'', JBool False), (key, JStr text)])) \<and>
         (raw \<noteq> [] \<and> crypto_available env \<and> service_role_key env \<and>
          on_devices_update env = Succeeds \<longrightarrow>
            body (fst (refresh_POST env db req)) =
              JObj [(''updated'', JBool False), (''reason'', JStr ''no match'')]) \<and>
         (raw \<noteq> [] \<and> crypto_available env \<and> service_role_key env \<and>
          on_devices_update env = Fails msg \<and> \<not> relation_missing msg \<longrightarrow>
            status (fst (refresh_POST env db req)) = 500 \<and>
            body (fst (refresh_POST env db req)) = JObj [(''error'', JStr msg)])"
  using assms(1) touch_unknown [OF assms(2), of env "now_iso env 0"]
  by (cases "on_devices_update env")
     (auto simp: refresh_POST_def not_updated_def json_response_def isoError_def)

lemma disable_trust_result:
  "fst (disable_trust env db userId) =
     with_cookie (json_response 200 (JObj [(''success'', JBool True)])) (expired_cookie env)"
  "profiles (snd (disable_trust env db userId)) = profiles db"
  "on_devices_delete env = Succeeds \<Longrightarrow> devices_of (snd (disable_trust env db userId)) userId = []"
  by (auto simp: disable_trust_def delete_devices_def devices_of_def Let_def filter_empty_conv
        split: outcome.splits)

text \<open>
  C6, as amended. A user has a stored TOTP entry and any number of trusted devices. When
  the disable route answers 200 \<open>{ success: true }\<close> (without a warning) to a request for
  that user, the answer expires the \<open>trusted_device\<close> cookie and the stored preferences
  no longer have a TOTP entry; the user is left with no trusted device provided the delete
  on \<open>trusted_devices\<close> reported no error.
\<close>
theorem disable_clears_second_factor:
  assumes "req_json req = Some b" "body_userId b = Some userId"
    and "profiles db userId = Some p" "profile_preferences p = Some prefs"
    and "prefs_totp prefs = Some totp"
    and "twofa_disable_POST env db req = (res, db')"
    and "status res = 200" "body res = JObj [(''success'', JBool True)]"
  shows "set_cookie res =
           Some \<lparr>cookie_name = ''trusted_device'', cookie_value = '''',
                 cookie_secure = production env, cookie_maxAge = 0\<rparr> \<and>
         (\<exists>p'. profiles db' userId = Some p' \<and> prefs_totp (stored_preferences (Some p')) = None) \<and>
         (on_devices_delete env = Succeeds \<longrightarrow> devices_of db' userId = [])"
proof -
  let ?db1 = "db\<lparr>profiles := (profiles db)(userId \<mapsto> p\<lparr>profile_preferences := Some (prefs\<lparr>prefs_totp := None\<rparr>)\<rparr>)\<rparr>"
  have "(res, db') = disable_trust env ?db1 userId"
    using assms
    by (auto simp: twofa_disable_POST_def select_profile_def update_preferences_def
          stored_preferences_def route_defs Let_def
          split: if_splits verified.splits outcome.splits)
  then have r: "res = fst (disable_trust env ?db1 userId)" and d: "db' = snd (disable_trust env ?db1 userId)"
    by (metis fst_conv, metis snd_conv)
  show ?thesis
    unfolding r d using disable_trust_result [of env ?db1 userId]
    by (simp add: with_cookie_def stored_preferences_def expired_cookie_def)
qed


lemma select_device_no_match:
  assumes "matching_devices db userId hash = []"
  shows "select_device env db userId hash =
           (case on_devices_select env of
              Succeeds \<Rightarrow> Data None | Fails msg \<Rightarrow> Error msg | Raises \<Rightarrow> Thrown)"
proof -
  from assms show ?thesis by (simp add: select_device_def maybeSingle_def split: outcome.splits)
qed

lemma check_without_match:
  assumes "matching_devices db userId (sha256_hex env raw) = []"
    and "req_cookies req ''trusted_device'' = Some raw"
    and "\<not> startsWith raw (userId @ '':'')"
  shows "\<not> trusted_device_check env db req userId"
  using assms(2,3) select_device_no_match [OF assms(1), of env]
  by (cases "on_devices_select env") (auto simp: trusted_device_check_def)

lemma startsWith_append: "startsWith s (p @ q) \<Longrightarrow> set q \<subseteq> set s"
proof (induction s p rule: startsWith.induct)
  case (1 s)
  then show ?case
  proof (induction s q rule: startsWith.induct)
    case (3 c cs p ps)
    then show ?case by auto
  qed simp_all
qed auto

lemma no_colon_no_prefix: "CHR '':'' \<notin> set raw \<Longrightarrow> \<not> startsWith raw (userId @ '':'')"
  using startsWith_append [of raw userId "'':''"] by auto

lemma profile_GET_trustedDevice:
  assumes "query_userId req = Some userId" "status (profile_GET env db req) = 200"
  shows "trustedDevice_of (profile_GET env db req) = Some (trusted_device_check env db req userId)"
  using assms
  by (auto simp: profile_GET_def trustedDevice_of_def route_defs Let_def
        dest: refused_status split: if_splits verified.splits reply.splits)

text \<open>
  C1, as amended. If no stored device of the user has the hash of the presented cookie
  token and the token does not start with \<open>userId:\<close>, the check finds the device
  untrusted, and a profile response with status 200 carries \<open>trustedDevice: false\<close>,
  whatever the database call and \<open>crypto\<close> do.
\<close>
theorem untrusted_without_match_or_prefix:
  assumes "matching_devices db userId (sha256_hex env raw) = []"
    and "req_cookies req ''trusted_device'' = Some raw"
    and "\<not> startsWith raw (userId @ '':'')"
    and "query_userId req = Some userId"
  shows "\<not> trusted_device_check env db req userId \<and>
         (status (profile_GET env db req) = 200 \<longrightarrow>
            trustedDevice_of (profile_GET env db req) = Some False)"
  using check_without_match [OF assms(1-3)] profile_GET_trustedDevice [OF assms(4)]
  by simp

lemma hex_token_no_prefix:
  assumes "is_hex_token raw"
  shows "raw \<noteq> []" "\<not> startsWith raw (userId @ '':'')"
proof -
  from assms have len: "length raw = 64"
    and digits: "\<forall>c \<in> set raw. c \<in> set ''0123456789abcdef''"
    unfolding is_hex_token_def list_all_iff by blast+
  from len show "raw \<noteq> []" by (cases raw) simp_all
  have "CHR '':'' \<notin> set ''0123456789abcdef''" by simp
  with digits have "CHR '':'' \<notin> set raw" by blast
  then show "\<not> startsWith raw (userId @ '':'')" by (rule no_colon_no_prefix)
qed

lemma login_trust_inserts:
  assumes "crypto_available env" "on_devices_insert env = Succeeds" "profiles db userId = Some p"
  shows "login_trust env db req userId =
           (with_cookie (json_response 200 (JObj [(''success'', JBool True)]))
              (trust_cookie env (random_token env)),
            db\<lparr>trusted_devices := trusted_devices db @
                 [new_device env req userId (sha256_hex env (random_token env)) (now_iso env 0)]\<rparr>)"
  using assms by (simp add: login_trust_def insert_device_def new_device_fields Let_def)

text \<open>
  C7, as amended. The login route issues a token for a user who has a profile: \<open>crypto\<close>
  is there, the insert of the device row succeeds, the token is 64 hexadecimal digits and
  its hash is not yet in the table. Then the cookie \<open>trusted_device\<close> carries the token,
  and a check on the resulting table (by any environment with the same hash function)
  finds
  \<^item> the same user with the same token trusted, provided that the check's own lookup
    answers: \<open>crypto\<close> is there, the service key is configured and the query reports no
    error;
  \<^item> any other user with that token untrusted;
  \<^item> the same user with another token untrusted, provided the other token does not start
    with \<open>userId:\<close> and its hash is the \<open>token_hash\<close> of no stored device of the user.
\<close>
theorem issued_token_round_trip:
  assumes "crypto_available env" "on_devices_insert env = Succeeds" "profiles db userId = Some p"
    and "login_trust env db req userId = (res, db')"
    and "devices_with_hash db (sha256_hex env (random_token env)) = []"
    and "is_hex_token (random_token env)"
    and "sha256_hex env2 = sha256_hex env"
  shows "set_cookie res =
           Some \<lparr>cookie_name = ''trusted_device'', cookie_value = random_token env,
                 cookie_secure = production env, cookie_maxAge = 31536000\<rparr> \<and>
         (req_cookies req2 ''trusted_device'' = Some (random_token env) \<and>
          crypto_available env2 \<and> service_role_key env2 \<and> on_devices_select env2 = Succeeds \<longrightarrow>
            trusted_device_check env2 db' req2 userId) \<and>
         (req_cookies req2 ''trusted_device'' = Some (random_token env) \<and> other \<noteq> userId \<longrightarrow>
            \<not> trusted_device_check env2 db' req2 other) \<and>
         (req_cookies req3 ''trusted_device'' = Some raw' \<and>
          matching_devices db' userId (sha256_hex env raw') = [] \<and>
          \<not> startsWith raw' (userId @ '':'') \<longrightarrow>
            \<not> trusted_device_check env2 db' req3 userId)"
proof -
  let ?raw = "random_token env"
  let ?new = "new_device env req userId (sha256_hex env ?raw) (now_iso env 0)"
  from login_trust_inserts [OF assms(1-3), of req] assms(4)
  have res: "res = with_cookie (json_response 200 (JObj [(''success'', JBool True)]))
                     (trust_cookie env ?raw)"
    and db': "db' = db\<lparr>trusted_devices := trusted_devices db @ [?new]\<rparr>"
    by simp_all
  have cookie: "set_cookie res =
      Some \<lparr>cookie_name = ''trusted_device'', cookie_value = ?raw,
            cookie_secure = production env, cookie_maxAge = 31536000\<rparr>"
    by (simp add: res with_cookie_def trust_cookie_def)
  have fresh: "\<forall>d \<in> set (trusted_devices db). dev_token_hash d \<noteq> sha256_hex env ?raw"
    using assms(5) by (simp add: devices_with_hash_def filter_empty_conv)
  have one: "matching_devices db' userId (sha256_hex env ?raw) = [?new]"
    using fresh by (simp add: matching_devices_def db' new_device_fields filter_empty_conv)
  have same: "req_cookies req2 ''trusted_device'' = Some ?raw \<Longrightarrow> crypto_available env2 \<Longrightarrow>
      service_role_key env2 \<Longrightarrow> on_devices_select env2 = Succeeds \<Longrightarrow>
      trusted_device_check env2 db' req2 userId"
    using one hex_token_no_prefix(1) [OF assms(6)]
    by (simp add: trusted_device_check_def select_device_def maybeSingle_def assms(7))
  have other: "req_cookies req2 ''trusted_device'' = Some ?raw \<Longrightarrow> other \<noteq> userId \<Longrightarrow>
      \<not> trusted_device_check env2 db' req2 other"
  proof -
    assume c: "req_cookies req2 ''trusted_device'' = Some ?raw" and o: "other \<noteq> userId"
    have "matching_devices db' other (sha256_hex env2 ?raw) = []"
      using fresh o
      by (auto simp: matching_devices_def db' new_device_fields assms(7) filter_empty_conv)
    then show ?thesis
      using c hex_token_no_prefix(2) [OF assms(6)] by (rule check_without_match)
  qed
  have mutated: "req_cookies req3 ''trusted_device'' = Some raw' \<Longrightarrow>
      matching_devices db' userId (sha256_hex env raw') = [] \<Longrightarrow>
      \<not> startsWith raw' (userId @ '':'') \<Longrightarrow> \<not> trusted_device_check env2 db' req3 userId"
  proof -
    assume c: "req_cookies req3 ''trusted_device'' = Some raw'"
      and n: "matching_devices db' userId (sha256_hex env raw') = []"
      and p: "\<not> startsWith raw' (userId @ '':'')"
    have "matching_devices db' userId (sha256_hex env2 raw') = []"
      using n by (simp add: assms(7))
    then show ?thesis using c p by (rule check_without_match)
  qed
  from cookie same other mutated show ?thesis by blast
qed

text \<open>The sample check raises on the two-character code \<open>12\<close>; both routes answer 400.\<close>
theorem totp_exception_is_failed_verification_witness:
  "authenticator_check sample_env ''12'' ann_secret = None \<and>
   twofa_verify_POST sample_env sample_db (enroll_request ''12'') =
     (error_response 400 ''invalid token'', sample_db) \<and>
   verify_login_POST sample_env sample_db (challenge_request ''12'') =
     (error_response 400 ''invalid token'', sample_db)"
proof -
  let ?b1 = "\<lparr>body_userId = Some ''ann'', body_secret = Some ann_secret, body_token = Some ''12''\<rparr>"
  let ?b2 = "\<lparr>body_userId = Some ''ann'', body_secret = None, body_token = Some ''12''\<rparr>"
  have raised: "authenticator_check sample_env ''12'' ann_secret = None"
    by (simp add: sample_env_def)
  have enroll: "parseJsonOrEmpty (enroll_request ''12'') = Some ?b1 \<and> body_userId ?b1 = Some ''ann'' \<and>
      ''ann'' \<noteq> [] \<and> body_secret ?b1 = Some ann_secret \<and> ann_secret \<noteq> [] \<and>
      body_token ?b1 = Some ''12'' \<and> ''12'' \<noteq> [] \<and>
      verifyUserFromRequest sample_env (enroll_request ''12'') (Some ''ann'') = Verified ''ann''"
    by (simp add: enroll_request_def parseJsonOrEmpty_def fields_of_def ann_secret_def ann_browser_def
          verifyUserFromRequest_def sample_env_def truthy_def)
  have login: "parseJsonOrEmpty (challenge_request ''12'') = Some ?b2 \<and> body_userId ?b2 = Some ''ann'' \<and>
      ''ann'' \<noteq> [] \<and> body_token ?b2 = Some ''12'' \<and> ''12'' \<noteq> [] \<and> service_role_key sample_env \<and>
      select_profile sample_env sample_db ''ann'' = Data (Some ann_profile) \<and>
      prefs_totp (stored_preferences (Some ann_profile)) = Some ann_totp \<and>
      totp_secret ann_totp = ann_secret \<and> ann_secret \<noteq> []"
    by (simp add: challenge_request_def parseJsonOrEmpty_def fields_of_def anonymous_browser_def
          sample_env_def select_profile_def sample_db_def stored_preferences_def ann_profile_def
          ann_totp_def ann_secret_def)
  from totp_exception_is_failed_verification
         [of sample_env "''12''" ann_secret "enroll_request ''12''" ?b1 "''ann''" "''ann''" sample_db]
       raised enroll
  have one: "twofa_verify_POST sample_env sample_db (enroll_request ''12'') =
     (error_response 400 ''invalid token'', sample_db)" by blast
  from totp_exception_is_failed_verification
         [of sample_env "''12''" ann_secret "challenge_request ''12''" ?b2 "''ann''" _ sample_db
             "Some ann_profile" ann_totp]
       raised login
  have two: "verify_login_POST sample_env sample_db (challenge_request ''12'') =
     (error_response 400 ''invalid token'', sample_db)" by blast
  from raised one two show ?thesis by blast
qed

text \<open>A wrong code leaves everything as it was; the right code sets the cookie.\<close>
theorem enrollment_needs_verified_code_witness:
  "\<not> submitted_code_verifies sample_env (enroll_request ''000000'') \<and>
   400 \<le> status (fst (twofa_verify_POST sample_env sample_db (enroll_request ''000000''))) \<and>
   snd (twofa_verify_POST sample_env sample_db (enroll_request ''000000'')) = sample_db \<and>
   set_cookie (fst (twofa_verify_POST sample_env sample_db (enroll_request ''000000''))) = None \<and>
   set_cookie (fst (twofa_verify_POST sample_env sample_db (enroll_request ''123456''))) \<noteq> None \<and>
   submitted_code_verifies sample_env (enroll_request ''123456'')"
proof -
  let ?bad = "twofa_verify_POST sample_env sample_db (enroll_request ''000000'')"
  let ?good = "twofa_verify_POST sample_env sample_db (enroll_request ''123456'')"
  have wrong: "\<not> submitted_code_verifies sample_env (enroll_request ''000000'')"
    by code_simp
  have cookie: "set_cookie (fst ?good) \<noteq> None"
    by code_simp
  from enrollment_needs_verified_code [of sample_env sample_db "enroll_request ''000000''"
         "fst ?bad" "snd ?bad"] wrong
  have bad: "400 \<le> status (fst ?bad)" "snd ?bad = sample_db" "set_cookie (fst ?bad) = None"
    by simp_all
  from enrollment_needs_verified_code [of sample_env sample_db "enroll_request ''123456''"
         "fst ?good" "snd ?good"] cookie
  have "submitted_code_verifies sample_env (enroll_request ''123456'')"
    by simp
  with wrong bad cookie show ?thesis by blast
qed


lemma sample_facts:
  "service_role_key sample_env" "crypto_available sample_env"
  "on_profiles_select sample_env = Succeeds" "on_profiles_update sample_env = Succeeds"
  "on_devices_select sample_env = Succeeds" "on_devices_insert sample_env = Succeeds"
  "on_devices_update sample_env = Succeeds" "on_devices_delete sample_env = Succeeds"
  "sha256_hex sample_env = sample_digest" "random_token sample_env = sample_token"
  "profiles sample_db ''ann'' = Some ann_profile"
  "profile_preferences ann_profile = Some \<lparr>prefs_totp = Some ann_totp,
      prefs_other = [(''theme'', JStr ''dark'')]\<rparr>"
  "totp_secret ann_totp = ann_secret" "ann_secret \<noteq> []"
  by (simp_all add: sample_env_def sample_db_def ann_profile_def ann_totp_def ann_secret_def)



text \<open>
  An unknown token against the sample table: with a working update call the report is
  \<open>no match\<close>; with an update call that reports an error the answer is a 500, the table
  being unchanged in both cases.
\<close>
theorem refresh_unknown_token_witness:
  "devices_with_hash sample_db (sha256_hex sample_env ''ffff'') = [] \<and>
   snd (refresh_POST sample_env sample_db (with_trust_cookie anonymous_browser ''ffff'')) =
     sample_db \<and>
   status (fst (refresh_POST sample_env sample_db (with_trust_cookie anonymous_browser ''ffff''))) =
     200 \<and>
   body (fst (refresh_POST sample_env sample_db (with_trust_cookie anonymous_browser ''ffff''))) =
     JObj [(''updated'', JBool False), (''reason'', JStr ''no match'')] \<and>
   \<not> relation_missing ''connection terminated'' \<and>
   snd (refresh_POST failing_update_env sample_db (with_trust_cookie anonymous_browser ''ffff'')) =
     sample_db \<and>
   status (fst (refresh_POST failing_update_env sample_db
     (with_trust_cookie anonymous_browser ''ffff''))) = 500"
proof -
  let ?req = "with_trust_cookie anonymous_browser ''ffff''"
  have c: "req_cookies ?req ''trusted_device'' = Some ''ffff''"
    by (simp add: with_trust_cookie_def)
  have u: "devices_with_hash sample_db (sha256_hex sample_env ''ffff'') = []"
    by (simp add: devices_with_hash_def sample_db_def sample_device_def sample_digest_def
          sample_facts)
  have f: "sha256_hex failing_update_env = sha256_hex sample_env"
    "crypto_available failing_update_env" "service_role_key failing_update_env"
    "on_devices_update failing_update_env = Fails ''connection terminated''"
    by (simp_all add: failing_update_env_def sample_facts)
  have u': "devices_with_hash sample_db (sha256_hex failing_update_env ''ffff'') = []"
    using u by (simp add: f)
  have m: "\<not> relation_missing ''connection terminated''" by code_simp
  from refresh_unknown_token [OF c u] sample_facts
  have good: "snd (refresh_POST sample_env sample_db ?req) = sample_db"
    "status (fst (refresh_POST sample_env sample_db ?req)) = 200"
    "body (fst (refresh_POST sample_env sample_db ?req)) =
       JObj [(''updated'', JBool False), (''reason'', JStr ''no match'')]"
    by simp_all
  from refresh_unknown_token [OF c u', where msg = "''connection terminated''"] f m
  have bad: "snd (refresh_POST failing_update_env sample_db ?req) = sample_db"
    "status (fst (refresh_POST failing_update_env sample_db ?req)) = 500"
    by simp_all
  from u good m bad show ?thesis by blast
qed

text \<open>
  C10 as stated fails: the token \<open>ffff\<close> matches no stored device, the update call
  reports the error \<open>connection terminated\<close>, and the route answers with status 500 and
  that message instead of reporting that no update occurred.
\<close>
theorem unknown_token_answered_500_counterexample:
  "req_cookies (with_trust_cookie anonymous_browser ''ffff'') ''trusted_device'' = Some ''ffff'' \<and>
   devices_with_hash sample_db (sha256_hex failing_update_env ''ffff'') = [] \<and>
   status (fst (refresh_POST failing_update_env sample_db
     (with_trust_cookie anonymous_browser ''ffff''))) = 500 \<and>
   body (fst (refresh_POST failing_update_env sample_db
     (with_trust_cookie anonymous_browser ''ffff''))) =
     JObj [(''error'', JStr ''connection terminated'')]"
  by code_simp


text \<open>Ann, with two trusted devices, disables her second factor.\<close>
theorem disable_clears_second_factor_witness:
  "length (devices_of sample_db ''ann'') = 2 \<and>
   status (fst (twofa_disable_POST sample_env sample_db disable_request)) = 200 \<and>
   body (fst (twofa_disable_POST sample_env sample_db disable_request)) =
     JObj [(''success'', JBool True)] \<and>
   set_cookie (fst (twofa_disable_POST sample_env sample_db disable_request)) =
     Some \<lparr>cookie_name = ''trusted_device'', cookie_value = '''', cookie_secure = True,
           cookie_maxAge = 0\<rparr> \<and>
   (\<exists>p'. profiles (snd (twofa_disable_POST sample_env sample_db disable_request)) ''ann'' = Some p' \<and>
         prefs_totp (stored_preferences (Some p')) = None) \<and>
   devices_of (snd (twofa_disable_POST sample_env sample_db disable_request)) ''ann'' = []"
proof -
  let ?run = "twofa_disable_POST sample_env sample_db disable_request"
  let ?b = "\<lparr>body_userId = Some ''ann'', body_secret = None, body_token = None\<rparr>"
  have b: "req_json disable_request = Some ?b" "body_userId ?b = Some ''ann''"
    by (simp_all add: disable_request_def req_json_def fields_of_def)
  have n: "length (devices_of sample_db ''ann'') = 2"
    by (simp add: devices_of_def sample_db_def sample_device_def)
  have ok: "status (fst ?run) = 200" "body (fst ?run) = JObj [(''success'', JBool True)]"
    by code_simp+
  have run: "?run = (fst ?run, snd ?run)" by simp
  have prod: "production sample_env" by (simp add: sample_env_def)
  from disable_clears_second_factor [OF b sample_facts(11) sample_facts(12) _ run ok]
    sample_facts(8) n ok prod
  show ?thesis by simp
qed

text \<open>
  C6 as stated fails: when the delete reports an error, the route logs it, still answers
  200 \<open>{ success: true }\<close>, and both of Ann's devices are still stored.
\<close>
theorem disable_reports_success_but_devices_remain_counterexample:
  "status (fst (twofa_disable_POST failing_delete_env sample_db disable_request)) = 200 \<and>
   body (fst (twofa_disable_POST failing_delete_env sample_db disable_request)) =
     JObj [(''success'', JBool True)] \<and>
   map dev_id (devices_of sample_db ''ann'') = [''device-1'', ''device-2''] \<and>
   map dev_id (devices_of (snd (twofa_disable_POST failing_delete_env sample_db disable_request))
     ''ann'') = [''device-1'', ''device-2'']"
  by code_simp


text \<open>Ann's browser presents an unknown token without the prefix.\<close>
theorem untrusted_without_match_or_prefix_witness:
  "matching_devices sample_db ''ann'' (sha256_hex sample_env ''ffff'') = [] \<and>
   \<not> startsWith ''ffff'' (''ann'' @ '':'') \<and>
   status (profile_GET sample_env sample_db (with_trust_cookie ann_browser ''ffff'')) = 200 \<and>
   trustedDevice_of (profile_GET sample_env sample_db (with_trust_cookie ann_browser ''ffff'')) =
     Some False"
proof -
  let ?req = "with_trust_cookie ann_browser ''ffff''"
  have m: "matching_devices sample_db ''ann'' (sha256_hex sample_env ''ffff'') = []"
    by (simp add: matching_devices_def sample_db_def sample_device_def sample_digest_def
          sample_facts)
  have c: "req_cookies ?req ''trusted_device'' = Some ''ffff''"
    by (simp add: with_trust_cookie_def)
  have p: "\<not> startsWith ''ffff'' (''ann'' @ '':'')" by simp
  have q: "query_userId ?req = Some ''ann''"
    by (simp add: with_trust_cookie_def ann_browser_def)
  have ok: "status (profile_GET sample_env sample_db ?req) = 200" by code_simp
  from untrusted_without_match_or_prefix [OF m c p q] ok m p show ?thesis by simp
qed

text \<open>
  C1 as stated fails: no stored device matches the cookie \<open>ann:forged\<close>, and the route
  falls back to the prefix test and reports \<open>trustedDevice: true\<close>.
\<close>
theorem prefixed_cookie_is_trusted_counterexample:
  "matching_devices sample_db ''ann'' (sha256_hex sample_env ''ann:forged'') = [] \<and>
   status (profile_GET sample_env sample_db (with_trust_cookie ann_browser ''ann:forged'')) = 200 \<and>
   trustedDevice_of (profile_GET sample_env sample_db (with_trust_cookie ann_browser ''ann:forged'')) =
     Some True"
  by code_simp

text \<open>
  Ann passes the login challenge; her token is trusted for her, not for Bob, and a token
  that differs in its first digit is not trusted.
\<close>
theorem issued_token_round_trip_witness:
  "set_cookie (fst (login_trust sample_env sample_db (challenge_request ''123456'') ''ann'')) =
     Some \<lparr>cookie_name = ''trusted_device'', cookie_value = sample_token, cookie_secure = True,
           cookie_maxAge = 31536000\<rparr> \<and>
   trusted_device_check sample_env after_challenge
     (with_trust_cookie anonymous_browser sample_token) ''ann'' \<and>
   \<not> trusted_device_check sample_env after_challenge
     (with_trust_cookie anonymous_browser sample_token) ''bob'' \<and>
   \<not> trusted_device_check sample_env after_challenge
     (with_trust_cookie anonymous_browser mutated_token) ''ann''"
proof -
  let ?req = "challenge_request ''123456''"
  let ?run = "login_trust sample_env sample_db ?req ''ann''"
  let ?req2 = "with_trust_cookie anonymous_browser sample_token"
  let ?raw' = "mutated_token"
  let ?req3 = "with_trust_cookie anonymous_browser ?raw'"
  have db': "after_challenge = snd ?run"
    by (simp add: after_challenge_def verify_login_POST_def challenge_request_def
          parseJsonOrEmpty_def fields_of_def select_profile_def stored_preferences_def
          totp_ok_def sample_facts sample_env_def)
  have run: "?run = (fst ?run, after_challenge)" by (simp add: db')
  have fresh: "devices_with_hash sample_db (sha256_hex sample_env (random_token sample_env)) = []"
    by code_simp
  have hex: "is_hex_token (random_token sample_env)" by code_simp
  have c2: "req_cookies ?req2 ''trusted_device'' = Some (random_token sample_env)"
    by (simp add: with_trust_cookie_def sample_facts)
  have c3: "req_cookies ?req3 ''trusted_device'' = Some ?raw'"
    by (simp add: with_trust_cookie_def)
  have m3: "matching_devices after_challenge ''ann'' (sha256_hex sample_env ?raw') = []"
    by code_simp
  have p3: "\<not> startsWith ?raw' (''ann'' @ '':'')" by code_simp
  have o: "''bob'' \<noteq> ''ann''" by simp
  have prod: "production sample_env" by (simp add: sample_env_def)
  from issued_token_round_trip [OF sample_facts(2) sample_facts(6) sample_facts(11) run fresh hex
         refl, of ?req2 "''bob''" ?req3 ?raw']
       c2 c3 m3 p3 o sample_facts(1,2,5) prod
  show ?thesis by (simp add: sample_facts)
qed

text \<open>
  C7 as stated fails. The issued token with \<open>ann:\<close> put in front of it is a different
  token, no stored hash matches it, and the check still reports Ann's device as trusted.
  When the insert of the device row reports an error, the route still issues the token in
  the cookie, and the check that follows with the same user and token finds the device
  untrusted; so does a check whose own lookup reports an error, although the row is stored.
\<close>
theorem mutated_token_with_prefix_is_trusted_counterexample:
  "set_cookie (fst (verify_login_POST sample_env sample_db (challenge_request ''123456''))) =
     Some \<lparr>cookie_name = ''trusted_device'', cookie_value = sample_token, cookie_secure = True,
           cookie_maxAge = 31536000\<rparr> \<and>
   ''ann:'' @ sample_token \<noteq> sample_token \<and>
   matching_devices after_challenge ''ann'' (sha256_hex sample_env (''ann:'' @ sample_token)) = [] \<and>
   trusted_device_check sample_env after_challenge
     (with_trust_cookie anonymous_browser (''ann:'' @ sample_token)) ''ann'' \<and>
   status (fst (verify_login_POST failing_insert_env sample_db (challenge_request ''123456''))) =
     200 \<and>
   set_cookie (fst (verify_login_POST failing_insert_env sample_db
     (challenge_request ''123456''))) =
     Some \<lparr>cookie_name = ''trusted_device'', cookie_value = sample_token, cookie_secure = True,
           cookie_maxAge = 31536000\<rparr> \<and>
   \<not> trusted_device_check failing_insert_env
       (snd (verify_login_POST failing_insert_env sample_db (challenge_request ''123456'')))
       (with_trust_cookie anonymous_browser sample_token) ''ann'' \<and>
   \<not> trusted_device_check failing_select_env after_challenge
       (with_trust_cookie anonymous_browser sample_token) ''ann''"
  by code_simp

text \<open>
  C2. After enrollment the stored TOTP secret is to appear in no response body. The profile
  route and the settings route do return it: Ann's stored secret is part of the body of the
  profile response (field \<open>profile.totp.secret\<close>) and of the settings response (field
  \<open>preferences.totp.secret\<close>), both answered with status 200 to her own browser.
\<close>
theorem stored_secret_is_returned:
  "totp_secret ann_totp = ann_secret \<and>
   status (profile_GET sample_env sample_db ann_browser) = 200 \<and>
   json_mentions ann_secret (body (profile_GET sample_env sample_db ann_browser)) \<and>
   status (settings_GET sample_env sample_db ann_browser) = 200 \<and>
   json_mentions ann_secret (body (settings_GET sample_env sample_db ann_browser))"
  by code_simp
end
